theory Spec2Isabelle
  imports Main "HOL-Library.Word"
begin

unbundle bit_operations_syntax

section \<open>Python values, exceptions and the kernel's records\<close>

type_synonym u16 = "16 word"
type_synonym u32 = "32 word"
type_synonym u64 = "64 word"
type_synonym errno = int

text \<open>
  The exceptions that \<^verbatim>\<open>media.py\<close> and \<^verbatim>\<open>helpers.py\<close> raise or let through.
  \<open>DanglingRef\<close> is not a Python exception: object references are positions in
  \<^verbatim>\<open>MediaDevice.objects\<close> here, and it is the value of following a position that
  is outside the list or holds an object of another class than the one the
  attribute is only ever assigned. Python's references cannot do either.
\<close>

datatype error =
    StopIteration
  | RuntimeError string
  | OSError errno
  | FileNotFoundError string
  | UnicodeDecodeError
  | ValueError
  | AttributeError
  | TypeError
  | DanglingRef

text \<open>\<^verbatim>\<open>next(generator)\<close> with no default: the first element, or StopIteration.\<close>

fun py_next :: "'a list \<Rightarrow> error + 'a" where
  "py_next [] = Inl StopIteration"
| "py_next (x # _) = Inr x"

text \<open>\<^verbatim>\<open>next(generator, None)\<close>.\<close>

fun py_next_default :: "'a list \<Rightarrow> 'a option" where
  "py_next_default [] = None"
| "py_next_default (x # _) = Some x"

text \<open>
  The ctypes structures of \<^verbatim>\<open>pyv4l2.uapi\<close> (the module is generated from the
  kernel's \<^verbatim>\<open>linux/media.h\<close>), with the fields that \<^verbatim>\<open>media.py\<close> reads.
\<close>

record media_v2_entity =
  ent_id :: u32
  ent_name :: string
  ent_function :: u32
  ent_flags :: u32

record media_v2_interface =
  iface_id :: u32
  iface_intf_type :: u32
  iface_major :: u32
  iface_minor :: u32

record media_v2_pad =
  pad_id :: u32
  pad_entity_id :: u32
  pad_flags :: u32
  pad_index :: u32

record media_v2_link =
  link_id :: u32
  link_source_id :: u32
  link_sink_id :: u32
  link_flags :: u32

text \<open>
  A pointer field of \<^verbatim>\<open>media_v2_topology\<close> is NULL, as the zero-initialised structure
  has it, or \<^verbatim>\<open>ctypes.addressof\<close> of one of the four arrays of \<^verbatim>\<open>__read_topology\<close>.
\<close>

datatype array = Array_entities | Array_interfaces | Array_pads | Array_links

datatype pointer = NULL | addressof array

record media_v2_topology =
  topology_version :: u64
  num_entities :: u32
  ptr_entities :: pointer
  num_interfaces :: u32
  ptr_interfaces :: pointer
  num_pads :: u32
  ptr_pads :: pointer
  num_links :: u32
  ptr_links :: pointer

record media_device_info =
  mdi_driver :: string
  mdi_model :: string
  mdi_serial :: string
  mdi_bus_info :: string
  mdi_media_version :: u32
  mdi_hw_revision :: u32
  mdi_driver_version :: u32

record media_pad_desc =
  pd_entity :: u32
  pd_index :: u16
  pd_flags :: u32

record media_link_desc =
  desc_source :: media_pad_desc
  desc_sink :: media_pad_desc
  desc_flags :: u32

section \<open>The object model\<close>

text \<open>
  A reference to a media object is its position in \<^verbatim>\<open>MediaDevice.objects\<close>: the list
  is built once and every object of the graph is in it exactly once, so the position
  is the object's identity. An attribute that \<^verbatim>\<open>__init__\<close> sets to None, or does not
  set at all (\<^verbatim>\<open>links\<close>), is an option.
\<close>

type_synonym ref = nat

record MediaObject =
  obj_id :: int
  links :: "ref list option"

record MediaEntity = MediaObject +
  media_entity :: media_v2_entity
  name :: string
  entity_function :: int
  entity_flags :: int
  pads :: "ref list option"
  interface :: "ref option"

record MediaInterface = MediaObject +
  media_iface :: media_v2_interface
  majorminor :: "int \<times> int"
  dev_path :: string
  intf_type :: int

record MediaPad = MediaObject +
  media_pad :: media_v2_pad
  index :: int
  entity :: "ref option"

record MediaLink = MediaObject +
  media_link :: media_v2_link
  flags :: int
  source :: "ref option"
  sink :: "ref option"

datatype object =
    is_Entity: Entity (the_Entity: MediaEntity)
  | is_Interface: Interface (the_Interface: MediaInterface)
  | is_Pad: Pad (the_Pad: MediaPad)
  | is_Link: Link (the_Link: MediaLink)

text \<open>\<^verbatim>\<open>o.id\<close> for an object of any of the four classes.\<close>

fun the_id :: "object \<Rightarrow> int" where
  "the_id (Entity e) = obj_id e"
| "the_id (Interface i) = obj_id i"
| "the_id (Pad p) = obj_id p"
| "the_id (Link l) = obj_id l"

subsection \<open>The device's views of its objects\<close>

text \<open>
  The properties \<^verbatim>\<open>entities\<close>, \<^verbatim>\<open>pads\<close>, \<^verbatim>\<open>links\<close> and \<^verbatim>\<open>interfaces\<close> of
  \<^verbatim>\<open>MediaDevice\<close>: the objects of one class, in the order of \<^verbatim>\<open>objects\<close>.
\<close>

definition md_entities :: "object list \<Rightarrow> ref list" where
  "md_entities objects = filter (\<lambda>r. is_Entity (objects ! r)) [0..<length objects]"

definition md_pads :: "object list \<Rightarrow> ref list" where
  "md_pads objects = filter (\<lambda>r. is_Pad (objects ! r)) [0..<length objects]"

definition md_links :: "object list \<Rightarrow> ref list" where
  "md_links objects = filter (\<lambda>r. is_Link (objects ! r)) [0..<length objects]"

definition md_interfaces :: "object list \<Rightarrow> ref list" where
  "md_interfaces objects = filter (\<lambda>r. is_Interface (objects ! r)) [0..<length objects]"

text \<open>\<^verbatim>\<open>MediaDevice.find_id\<close>: the first object with the id, or None.\<close>

definition find_id :: "object list \<Rightarrow> int \<Rightarrow> ref option" where
  "find_id objects i =
     py_next_default (filter (\<lambda>r. the_id (objects ! r) = i) [0..<length objects])"

subsection \<open>Resolution: the \<^verbatim>\<open>_finalize\<close> methods\<close>

text \<open>
  \<^verbatim>\<open>MediaObject._finalize\<close>: the links one of whose raw endpoint ids is the object's
  id. The methods read the device's \<^verbatim>\<open>objects\<close> and nothing else of the device.
\<close>

definition MediaObject_finalize :: "object list \<Rightarrow> int \<Rightarrow> ref list" where
  "MediaObject_finalize objects self_id =
     filter (\<lambda>l. self_id = uint (link_source_id (media_link (the_Link (objects ! l))))
                \<or> self_id = uint (link_sink_id (media_link (the_Link (objects ! l)))))
       (md_links objects)"

text \<open>
  The loop of \<^verbatim>\<open>MediaEntity._finalize\<close> that fills \<^verbatim>\<open>ifaces\<close>: for each incident
  link, its source id and then its sink id are looked up with \<^verbatim>\<open>find_id\<close>, and the
  object found is appended when it is a MediaInterface.
\<close>

definition entity_ifaces :: "object list \<Rightarrow> ref list \<Rightarrow> ref list" where
  "entity_ifaces objects self_links =
     concat (map (\<lambda>l.
         concat (map (\<lambda>i. case find_id objects i of
                             None \<Rightarrow> []
                           | Some ob \<Rightarrow> if is_Interface (objects ! ob) then [ob] else [])
                      [uint (link_source_id (media_link (the_Link (objects ! l)))),
                       uint (link_sink_id (media_link (the_Link (objects ! l))))]))
       self_links)"

definition MediaEntity_finalize :: "object list \<Rightarrow> MediaEntity \<Rightarrow> error + MediaEntity" where
  "MediaEntity_finalize objects self =
     (let self = self\<lparr>links := Some (MediaObject_finalize objects (obj_id self))\<rparr>;
          self = self\<lparr>pads := Some (filter (\<lambda>p. uint (pad_entity_id (media_pad (the_Pad (objects ! p))))
                                                = obj_id self) (md_pads objects))\<rparr>;
          ifaces = entity_ifaces objects (the (links self))
      in if length ifaces > 1 then Inl (RuntimeError ''Multiple interfaces for entity'')
         else if length ifaces > 0 then Inr (self\<lparr>interface := Some (ifaces ! 0)\<rparr>)
         else Inr self)"

definition MediaInterface_finalize :: "object list \<Rightarrow> MediaInterface \<Rightarrow> error + MediaInterface" where
  "MediaInterface_finalize objects self =
     Inr (self\<lparr>links := Some (MediaObject_finalize objects (obj_id self))\<rparr>)"

definition MediaPad_finalize :: "object list \<Rightarrow> MediaPad \<Rightarrow> error + MediaPad" where
  "MediaPad_finalize objects self =
     (let self = self\<lparr>links := Some (MediaObject_finalize objects (obj_id self))\<rparr>
      in case py_next (filter (\<lambda>e. the_id (objects ! e) = uint (pad_entity_id (media_pad self)))
                         (md_entities objects)) of
           Inl err \<Rightarrow> Inl err
         | Inr e \<Rightarrow> Inr (self\<lparr>entity := Some e\<rparr>))"

definition MediaLink_finalize :: "object list \<Rightarrow> MediaLink \<Rightarrow> error + MediaLink" where
  "MediaLink_finalize objects self =
     (let self = self\<lparr>links := Some (MediaObject_finalize objects (obj_id self))\<rparr>
      in case py_next (filter (\<lambda>e. the_id (objects ! e) = uint (link_source_id (media_link self)))
                         [0..<length objects]) of
           Inl err \<Rightarrow> Inl err
         | Inr src \<Rightarrow>
             (case py_next (filter (\<lambda>e. the_id (objects ! e) = uint (link_sink_id (media_link self)))
                              [0..<length objects]) of
                Inl err \<Rightarrow> Inl err
              | Inr snk \<Rightarrow> Inr (self\<lparr>source := Some src, sink := Some snk\<rparr>)))"

text \<open>\<^verbatim>\<open>o._finalize()\<close>, dispatched on the object's class.\<close>

fun finalize :: "object list \<Rightarrow> object \<Rightarrow> error + object" where
  "finalize objects (Entity e) = map_sum (\<lambda>x. x) Entity (MediaEntity_finalize objects e)"
| "finalize objects (Interface i) = map_sum (\<lambda>x. x) Interface (MediaInterface_finalize objects i)"
| "finalize objects (Pad p) = map_sum (\<lambda>x. x) Pad (MediaPad_finalize objects p)"
| "finalize objects (Link l) = map_sum (\<lambda>x. x) Link (MediaLink_finalize objects l)"

text \<open>
  \<^verbatim>\<open>for o in self.objects: o._finalize()\<close>: the objects are finalized in place, in
  order; the first exception ends the loop.
\<close>

fun finalize_loop :: "object list \<Rightarrow> ref list \<Rightarrow> error + object list" where
  "finalize_loop objects [] = Inr objects"
| "finalize_loop objects (r # rs) =
     (case finalize objects (objects ! r) of
        Inl err \<Rightarrow> Inl err
      | Inr ob \<Rightarrow> finalize_loop (objects[r := ob]) rs)"

definition finalize_all :: "object list \<Rightarrow> error + object list" where
  "finalize_all objects = finalize_loop objects [0..<length objects]"


section \<open>What the module takes from outside\<close>

text \<open>
  \<^verbatim>\<open>pyv4l2.enums\<close> and \<^verbatim>\<open>pyv4l2.uapi\<close> are not among the sources, and the file
  system and the standard library are not the module's own. They are parameters:
  which integers are members of the two enumerations (\<^verbatim>\<open>Enum(value)\<close> raises
  ValueError on any other), the value of \<^verbatim>\<open>uapi.MEDIA_LNK_FL_ENABLED\<close>, what
  \<^verbatim>\<open>open(path).readlines()\<close> gives, what \<^verbatim>\<open>glob.glob\<close> and \<^verbatim>\<open>fnmatch.fnmatch\<close>
  give, and \<^verbatim>\<open>bytes.decode()\<close> (UTF-8, None for UnicodeDecodeError).
\<close>

record env =
  MediaEntityFunction_member :: "int \<Rightarrow> bool"
  MediaInterfaceType_member :: "int \<Rightarrow> bool"
  MEDIA_LNK_FL_ENABLED :: int
  readlines :: "string \<Rightarrow> error + string list"
  glob :: "string \<Rightarrow> string list"
  fnmatch :: "string \<Rightarrow> string \<Rightarrow> bool"
  decode :: "string \<Rightarrow> string option"

text \<open>\<^verbatim>\<open>bytes.decode('ascii')\<close>: every byte below 128, or UnicodeDecodeError.\<close>

definition decode_ascii :: "string \<Rightarrow> error + string" where
  "decode_ascii bs =
     (if list_all (\<lambda>c. (of_char c :: nat) < 128) bs then Inr bs else Inl UnicodeDecodeError)"

subsection \<open>\<^verbatim>\<open>helpers.filepath_for_major_minor\<close>\<close>

text \<open>\<^verbatim>\<open>str(n)\<close> for a non-negative integer, as the f-string formats it.\<close>

definition digit_char :: "nat \<Rightarrow> char" where
  "digit_char d = char_of (of_char CHR ''0'' + d)"

fun str_nat :: "nat \<Rightarrow> string" where
  "str_nat n = (if n < 10 then [digit_char n] else str_nat (n div 10) @ [digit_char (n mod 10)])"

declare str_nat.simps [simp del]

text \<open>\<^verbatim>\<open>str.isspace\<close> on ASCII and \<^verbatim>\<open>str.strip()\<close>.\<close>

definition py_isspace :: "char \<Rightarrow> bool" where
  "py_isspace c = (let n = (of_char c :: nat) in (9 \<le> n \<and> n \<le> 13) \<or> (28 \<le> n \<and> n \<le> 32))"

definition strip :: "string \<Rightarrow> string" where
  "strip s = rev (dropWhile py_isspace (rev (dropWhile py_isspace s)))"

definition startswith :: "string \<Rightarrow> string \<Rightarrow> bool" where
  "startswith s prefix = (take (length prefix) s = prefix)"

fun devname_line :: "string list \<Rightarrow> string option" where
  "devname_line [] = None"
| "devname_line (l # ls) =
     (if \<not> startswith l ''DEVNAME='' then devname_line ls
      else Some (''/dev/'' @ strip (drop (length ''DEVNAME='') l)))"

definition filepath_for_major_minor :: "env \<Rightarrow> int \<Rightarrow> int \<Rightarrow> error + string" where
  "filepath_for_major_minor ev major minor =
     (case readlines ev (''/sys/dev/char/'' @ str_nat (nat major) @ '':'' @ str_nat (nat minor) @ ''/uevent'') of
        Inl err \<Rightarrow> Inl err
      | Inr ls \<Rightarrow>
          (case devname_line ls of
             Some path \<Rightarrow> Inr path
           | None \<Rightarrow> Inl (RuntimeError (''No device-node found for ('' @ str_nat (nat major) @ '','' @ str_nat (nat minor) @ '')''))))"

subsection \<open>The constructors\<close>

definition MediaEntity_init :: "env \<Rightarrow> media_v2_entity \<Rightarrow> error + MediaEntity" where
  "MediaEntity_init ev me =
     (case decode_ascii (ent_name me) of
        Inl err \<Rightarrow> Inl err
      | Inr nm \<Rightarrow>
          if \<not> MediaEntityFunction_member ev (uint (ent_function me)) then Inl ValueError
          else Inr \<lparr>obj_id = uint (ent_id me), links = None, media_entity = me, name = nm,
                    entity_function = uint (ent_function me), entity_flags = uint (ent_flags me),
                    pads = None, interface = None\<rparr>)"

definition MediaInterface_init :: "env \<Rightarrow> media_v2_interface \<Rightarrow> error + MediaInterface" where
  "MediaInterface_init ev mi =
     (case filepath_for_major_minor ev (uint (iface_major mi)) (uint (iface_minor mi)) of
        Inl err \<Rightarrow> Inl err
      | Inr path \<Rightarrow>
          if \<not> MediaInterfaceType_member ev (uint (iface_intf_type mi)) then Inl ValueError
          else Inr \<lparr>obj_id = uint (iface_id mi), links = None, media_iface = mi,
                    majorminor = (uint (iface_major mi), uint (iface_minor mi)),
                    dev_path = path, intf_type = uint (iface_intf_type mi)\<rparr>)"

definition MediaPad_init :: "media_v2_pad \<Rightarrow> MediaPad" where
  "MediaPad_init mp =
     \<lparr>obj_id = uint (pad_id mp), links = None, media_pad = mp, index = uint (pad_index mp),
      entity = None\<rparr>"

definition MediaLink_init :: "media_v2_link \<Rightarrow> MediaLink" where
  "MediaLink_init ml =
     \<lparr>obj_id = uint (link_id ml), links = None, media_link = ml, flags = uint (link_flags ml),
      source = None, sink = None\<rparr>"

text \<open>A list comprehension whose element expression may raise: the first exception wins.\<close>

fun map_result :: "('a \<Rightarrow> error + 'b) \<Rightarrow> 'a list \<Rightarrow> error + 'b list" where
  "map_result f [] = Inr []"
| "map_result f (x # xs) =
     (case f x of
        Inl err \<Rightarrow> Inl err
      | Inr y \<Rightarrow> (case map_result f xs of Inl err \<Rightarrow> Inl err | Inr ys \<Rightarrow> Inr (y # ys)))"

record MediaTopology =
  topo_topology :: media_v2_topology
  topo_entities :: "media_v2_entity list"
  topo_interfaces :: "media_v2_interface list"
  topo_pads :: "media_v2_pad list"
  topo_links :: "media_v2_link list"

text \<open>
  The second half of \<^verbatim>\<open>MediaDevice.__read_topology\<close>: one object for each record,
  entities, interfaces, pads and links in this order, and then the resolution pass.
\<close>

definition wrap_objects :: "env \<Rightarrow> MediaTopology \<Rightarrow> error + object list" where
  "wrap_objects ev t =
     (case map_result (MediaEntity_init ev) (topo_entities t) of
        Inl err \<Rightarrow> Inl err
      | Inr es \<Rightarrow>
          (case map_result (MediaInterface_init ev) (topo_interfaces t) of
             Inl err \<Rightarrow> Inl err
           | Inr ifs \<Rightarrow>
               Inr (map Entity es @ map Interface ifs
                    @ map (\<lambda>p. Pad (MediaPad_init p)) (topo_pads t)
                    @ map (\<lambda>l. Link (MediaLink_init l)) (topo_links t))))"

definition build_graph :: "env \<Rightarrow> MediaTopology \<Rightarrow> error + object list" where
  "build_graph ev t =
     (case wrap_objects ev t of
        Inl err \<Rightarrow> Inl err
      | Inr objects \<Rightarrow> finalize_all objects)"

subsection \<open>Properties of the resolved objects\<close>

text \<open>Following a reference: the object at that position of \<^verbatim>\<open>objects\<close>.\<close>

definition deref :: "object list \<Rightarrow> ref \<Rightarrow> object option" where
  "deref objects r = (if r < length objects then Some (objects ! r) else None)"

text \<open>\<^verbatim>\<open>MediaLink.source_pad\<close> and \<^verbatim>\<open>MediaLink.sink_pad\<close>; None is not a MediaPad.\<close>

definition source_pad :: "object list \<Rightarrow> MediaLink \<Rightarrow> error + ref" where
  "source_pad objects self =
     (case source self of
        None \<Rightarrow> Inl (RuntimeError ''Source is not a MediaPad'')
      | Some r \<Rightarrow>
          (case deref objects r of
             None \<Rightarrow> Inl DanglingRef
           | Some ob \<Rightarrow> if is_Pad ob then Inr r else Inl (RuntimeError ''Source is not a MediaPad'')))"

definition sink_pad :: "object list \<Rightarrow> MediaLink \<Rightarrow> error + ref" where
  "sink_pad objects self =
     (case sink self of
        None \<Rightarrow> Inl (RuntimeError ''Sink is not a MediaPad'')
      | Some r \<Rightarrow>
          (case deref objects r of
             None \<Rightarrow> Inl DanglingRef
           | Some ob \<Rightarrow> if is_Pad ob then Inr r else Inl (RuntimeError ''Sink is not a MediaPad'')))"

text \<open>
  \<^verbatim>\<open>pad.links\<close> for a reference to a pad: AttributeError while the attribute is not
  assigned.
\<close>

definition pad_links_of :: "object list \<Rightarrow> ref \<Rightarrow> error + ref list" where
  "pad_links_of objects p =
     (case deref objects p of
        Some (Pad pd) \<Rightarrow> (case links pd of None \<Rightarrow> Inl AttributeError | Some ls \<Rightarrow> Inr ls)
      | _ \<Rightarrow> Inl DanglingRef)"

text \<open>
  \<^verbatim>\<open>MediaEntity.pad_links\<close>: the links of the entity's pads, pad after pad. Iterating
  over None is a TypeError.
\<close>

definition pad_links :: "object list \<Rightarrow> MediaEntity \<Rightarrow> error + ref list" where
  "pad_links objects self =
     (case pads self of
        None \<Rightarrow> Inl TypeError
      | Some ps \<Rightarrow> map_sum (\<lambda>x. x) concat (map_result (pad_links_of objects) ps))"

text \<open>\<^verbatim>\<open>MediaLink.is_enabled\<close>.\<close>

definition is_enabled :: "env \<Rightarrow> MediaLink \<Rightarrow> bool" where
  "is_enabled ev self = (flags self AND MEDIA_LNK_FL_ENABLED ev \<noteq> 0)"


section \<open>The kernel transport\<close>

text \<open>
  The system calls the module issues. \<^verbatim>\<open>os.open\<close> is always called with
  \<^verbatim>\<open>O_RDWR | O_NONBLOCK\<close>; the device-info ioctl passes a zeroed structure.
\<close>

datatype syscall =
    os_open string
  | os_close int
  | ioctl_DEVICE_INFO int
  | ioctl_G_TOPOLOGY int media_v2_topology
  | ioctl_SETUP_LINK int media_link_desc

text \<open>
  What the topology ioctl leaves behind when it succeeds: the structure as the kernel
  wrote it back, and the records it copied to the four arrays the structure points to.
\<close>

record topology_reply =
  reply_topology :: media_v2_topology
  reply_entities :: "media_v2_entity list"
  reply_interfaces :: "media_v2_interface list"
  reply_pads :: "media_v2_pad list"
  reply_links :: "media_v2_link list"

text \<open>
  The kernel (or a mock transport) is any deterministic answer to each call, given the
  calls issued before it. A failing call answers with its errno, which \<^verbatim>\<open>os\<close> and
  \<^verbatim>\<open>fcntl\<close> raise as OSError.
\<close>

record kernel =
  open_result :: "syscall list \<Rightarrow> string \<Rightarrow> errno + int"
  close_result :: "syscall list \<Rightarrow> int \<Rightarrow> errno option"
  device_info_result :: "syscall list \<Rightarrow> int \<Rightarrow> errno + media_device_info"
  g_topology_result :: "syscall list \<Rightarrow> int \<Rightarrow> media_v2_topology \<Rightarrow> errno + topology_reply"
  setup_link_result :: "syscall list \<Rightarrow> int \<Rightarrow> media_link_desc \<Rightarrow> errno option"

text \<open>
  The world outside the object graph: the system calls issued so far, and the file
  descriptors for which \<^verbatim>\<open>weakref.finalize(self, os.close, fd)\<close> has registered a
  close that has not run yet.
\<close>

record world =
  calls :: "syscall list"
  finalizers :: "int list"

definition sys_open :: "kernel \<Rightarrow> string \<Rightarrow> world \<Rightarrow> (error + int) \<times> world" where
  "sys_open k path w =
     (case open_result k (calls w) path of Inl en \<Rightarrow> Inl (OSError en) | Inr d \<Rightarrow> Inr d,
      w\<lparr>calls := calls w @ [os_open path]\<rparr>)"

definition sys_close :: "kernel \<Rightarrow> int \<Rightarrow> world \<Rightarrow> error option \<times> world" where
  "sys_close k d w =
     (case close_result k (calls w) d of Some en \<Rightarrow> Some (OSError en) | None \<Rightarrow> None,
      w\<lparr>calls := calls w @ [os_close d]\<rparr>)"

definition sys_ioctl_device_info :: "kernel \<Rightarrow> int \<Rightarrow> world \<Rightarrow> (error + media_device_info) \<times> world" where
  "sys_ioctl_device_info k d w =
     (case device_info_result k (calls w) d of Inl en \<Rightarrow> Inl (OSError en) | Inr mdi \<Rightarrow> Inr mdi,
      w\<lparr>calls := calls w @ [ioctl_DEVICE_INFO d]\<rparr>)"

definition sys_ioctl_g_topology ::
  "kernel \<Rightarrow> int \<Rightarrow> media_v2_topology \<Rightarrow> world \<Rightarrow> (error + topology_reply) \<times> world" where
  "sys_ioctl_g_topology k d t w =
     (case g_topology_result k (calls w) d t of Inl en \<Rightarrow> Inl (OSError en) | Inr r \<Rightarrow> Inr r,
      w\<lparr>calls := calls w @ [ioctl_G_TOPOLOGY d t]\<rparr>)"

definition sys_ioctl_setup_link ::
  "kernel \<Rightarrow> int \<Rightarrow> media_link_desc \<Rightarrow> world \<Rightarrow> error option \<times> world" where
  "sys_ioctl_setup_link k d desc w =
     (case setup_link_result k (calls w) d desc of Some en \<Rightarrow> Some (OSError en) | None \<Rightarrow> None,
      w\<lparr>calls := calls w @ [ioctl_SETUP_LINK d desc]\<rparr>)"

section \<open>The device handle\<close>

text \<open>The attributes that \<^verbatim>\<open>__read_device_info\<close> sets, and then the whole handle.\<close>

record DeviceInfo =
  driver :: string
  model :: string
  serial :: string
  bus_info :: string
  media_version :: "int \<times> int \<times> int"
  hw_revision :: int
  driver_version :: "int \<times> int \<times> int"

record MediaDevice = DeviceInfo +
  fd :: int
  topology :: MediaTopology
  objects :: "object list"

subsection \<open>The link controller\<close>

text \<open>\<^verbatim>\<open>pad.entity.id\<close> and \<^verbatim>\<open>pad.index\<close> for a reference to a pad.\<close>

definition pad_entity_id_of :: "object list \<Rightarrow> ref \<Rightarrow> error + int" where
  "pad_entity_id_of objs p =
     (case deref objs p of
        Some (Pad pd) \<Rightarrow>
          (case entity pd of
             None \<Rightarrow> Inl AttributeError
           | Some e \<Rightarrow> (case deref objs e of Some (Entity en) \<Rightarrow> Inr (obj_id en) | _ \<Rightarrow> Inl DanglingRef))
      | _ \<Rightarrow> Inl DanglingRef)"

definition pad_index_of :: "object list \<Rightarrow> ref \<Rightarrow> error + int" where
  "pad_index_of objs p =
     (case deref objs p of Some (Pad pd) \<Rightarrow> Inr (index pd) | _ \<Rightarrow> Inl DanglingRef)"

text \<open>
  The descriptor that \<^verbatim>\<open>MediaLink._setup\<close> fills before the ioctl, field by field in
  the source's order; the ctypes fields keep the low bits of what is assigned.
\<close>

definition link_desc :: "object list \<Rightarrow> MediaLink \<Rightarrow> int \<Rightarrow> error + media_link_desc" where
  "link_desc objs self flgs =
     (case source_pad objs self of
        Inl err \<Rightarrow> Inl err
      | Inr sp \<Rightarrow>
     (case pad_entity_id_of objs sp of
        Inl err \<Rightarrow> Inl err
      | Inr se \<Rightarrow>
     (case pad_index_of objs sp of
        Inl err \<Rightarrow> Inl err
      | Inr si \<Rightarrow>
     (case sink_pad objs self of
        Inl err \<Rightarrow> Inl err
      | Inr kp \<Rightarrow>
     (case pad_entity_id_of objs kp of
        Inl err \<Rightarrow> Inl err
      | Inr ke \<Rightarrow>
     (case pad_index_of objs kp of
        Inl err \<Rightarrow> Inl err
      | Inr ki \<Rightarrow>
          Inr \<lparr>desc_source = \<lparr>pd_entity = word_of_int se, pd_index = word_of_int si, pd_flags = 0\<rparr>,
               desc_sink = \<lparr>pd_entity = word_of_int ke, pd_index = word_of_int ki, pd_flags = 0\<rparr>,
               desc_flags = word_of_int flgs\<rparr>))))))"

text \<open>
  \<^verbatim>\<open>MediaLink._setup\<close> on the link at reference \<open>l\<close> of the device: the exception
  raised if any, the device afterwards, and the world afterwards.
\<close>

definition MediaLink_setup ::
  "kernel \<Rightarrow> MediaDevice \<Rightarrow> ref \<Rightarrow> int \<Rightarrow> world \<Rightarrow> error option \<times> MediaDevice \<times> world" where
  "MediaLink_setup k md l flgs w =
     (case deref (objects md) l of
        Some (Link self) \<Rightarrow>
          (case link_desc (objects md) self flgs of
             Inl err \<Rightarrow> (Some err, md, w)
           | Inr desc \<Rightarrow>
               (case sys_ioctl_setup_link k (fd md) desc w of
                  (Some err, w') \<Rightarrow> (Some err, md, w')
                | (None, w') \<Rightarrow>
                    (None, md\<lparr>objects := (objects md)[l := Link (self\<lparr>flags := flgs\<rparr>)]\<rparr>, w')))
      | _ \<Rightarrow> (Some DanglingRef, md, w))"

definition enable ::
  "env \<Rightarrow> kernel \<Rightarrow> MediaDevice \<Rightarrow> ref \<Rightarrow> world \<Rightarrow> error option \<times> MediaDevice \<times> world" where
  "enable ev k md l w = MediaLink_setup k md l (MEDIA_LNK_FL_ENABLED ev) w"

definition disable ::
  "kernel \<Rightarrow> MediaDevice \<Rightarrow> ref \<Rightarrow> world \<Rightarrow> error option \<times> MediaDevice \<times> world" where
  "disable k md l w = MediaLink_setup k md l 0 w"


subsection \<open>Opening a device\<close>

text \<open>\<^verbatim>\<open>bytes.decode()\<close> of a field of the device info.\<close>

definition decode_field :: "env \<Rightarrow> string \<Rightarrow> error + string" where
  "decode_field ev bs = (case decode ev bs of None \<Rightarrow> Inl UnicodeDecodeError | Some s \<Rightarrow> Inr s)"

text \<open>
  \<^verbatim>\<open>getattr(mdi, key).decode()\<close>: the four character arrays decode; every other
  attribute of the structure is missing or has no \<^verbatim>\<open>decode\<close>.
\<close>

definition getattr_decode :: "env \<Rightarrow> media_device_info \<Rightarrow> string \<Rightarrow> error + string" where
  "getattr_decode ev mdi key =
     (if key = ''driver'' then decode_field ev (mdi_driver mdi)
      else if key = ''model'' then decode_field ev (mdi_model mdi)
      else if key = ''serial'' then decode_field ev (mdi_serial mdi)
      else if key = ''bus_info'' then decode_field ev (mdi_bus_info mdi)
      else Inl AttributeError)"

text \<open>
  The loop of \<^verbatim>\<open>__find_media_device_by_value\<close> over the paths of the glob. A path
  that does not open is skipped; the descriptor of one that opens is closed in the
  \<^verbatim>\<open>finally\<close> clause on every way out of the \<^verbatim>\<open>try\<close> block, and an exception of
  the close itself replaces whatever was leaving the block.
\<close>

fun find_media_device_loop ::
  "env \<Rightarrow> kernel \<Rightarrow> string \<Rightarrow> string \<Rightarrow> string list \<Rightarrow> world \<Rightarrow> (error + string) \<times> world" where
  "find_media_device_loop ev k key val [] w =
     (Inl (FileNotFoundError (''No media device '' @ [CHR 0x22] @ key @ [CHR 0x22] @ '' = ''
                              @ [CHR 0x22] @ val @ [CHR 0x22] @ '' found'')), w)"
| "find_media_device_loop ev k key val (path # paths) w =
     (case sys_open k path w of
        (Inl err, w1) \<Rightarrow> find_media_device_loop ev k key val paths w1
      | (Inr d, w1) \<Rightarrow>
          (case sys_ioctl_device_info k d w1 of
             (Inl err, w2) \<Rightarrow>
               (case sys_close k d w2 of
                  (Some cerr, w3) \<Rightarrow> (Inl cerr, w3)
                | (None, w3) \<Rightarrow> (Inl err, w3))
           | (Inr mdi, w2) \<Rightarrow>
               (case sys_close k d w2 of
                  (Some cerr, w3) \<Rightarrow> (Inl cerr, w3)
                | (None, w3) \<Rightarrow>
                    (case getattr_decode ev mdi key of
                       Inl err \<Rightarrow> (Inl err, w3)
                     | Inr device_val \<Rightarrow>
                         if fnmatch ev device_val val then (Inr path, w3)
                         else find_media_device_loop ev k key val paths w3))))"

definition find_media_device_by_value ::
  "env \<Rightarrow> kernel \<Rightarrow> string \<Rightarrow> string \<Rightarrow> world \<Rightarrow> (error + string) \<times> world" where
  "find_media_device_by_value ev k key val w =
     find_media_device_loop ev k key val (glob ev ''/dev/media*'') w"

text \<open>\<^verbatim>\<open>__decode_kernel_version\<close>, on Python's integers.\<close>

definition decode_kernel_version :: "int \<Rightarrow> int \<times> int \<times> int" where
  "decode_kernel_version v = (drop_bit 16 v AND 0xff, drop_bit 8 v AND 0xff, v AND 0xff)"

definition read_device_info :: "env \<Rightarrow> kernel \<Rightarrow> int \<Rightarrow> world \<Rightarrow> (error + DeviceInfo) \<times> world" where
  "read_device_info ev k d w =
     (case sys_ioctl_device_info k d w of
        (Inl err, w1) \<Rightarrow> (Inl err, w1)
      | (Inr mdi, w1) \<Rightarrow>
          (case decode_field ev (mdi_driver mdi) of
             Inl err \<Rightarrow> Inl err
           | Inr drv \<Rightarrow>
          (case decode_field ev (mdi_model mdi) of
             Inl err \<Rightarrow> Inl err
           | Inr mdl \<Rightarrow>
          (case decode_field ev (mdi_serial mdi) of
             Inl err \<Rightarrow> Inl err
           | Inr srl \<Rightarrow>
          (case decode_field ev (mdi_bus_info mdi) of
             Inl err \<Rightarrow> Inl err
           | Inr bus \<Rightarrow>
               Inr \<lparr>driver = drv, model = mdl, serial = srl, bus_info = bus,
                    media_version = decode_kernel_version (uint (mdi_media_version mdi)),
                    hw_revision = uint (mdi_hw_revision mdi),
                    driver_version = decode_kernel_version (uint (mdi_driver_version mdi))\<rparr>))), w1))"

text \<open>The zero-initialised ctypes values.\<close>

definition zero_topology :: media_v2_topology where
  "zero_topology = \<lparr>topology_version = 0, num_entities = 0, ptr_entities = NULL,
     num_interfaces = 0, ptr_interfaces = NULL, num_pads = 0, ptr_pads = NULL,
     num_links = 0, ptr_links = NULL\<rparr>"

definition zero_entity :: media_v2_entity where
  "zero_entity = \<lparr>ent_id = 0, ent_name = [], ent_function = 0, ent_flags = 0\<rparr>"

definition zero_interface :: media_v2_interface where
  "zero_interface = \<lparr>iface_id = 0, iface_intf_type = 0, iface_major = 0, iface_minor = 0\<rparr>"

definition zero_pad :: media_v2_pad where
  "zero_pad = \<lparr>pad_id = 0, pad_entity_id = 0, pad_flags = 0, pad_index = 0\<rparr>"

definition zero_link :: media_v2_link where
  "zero_link = \<lparr>link_id = 0, link_source_id = 0, link_sink_id = 0, link_flags = 0\<rparr>"

text \<open>
  An array after the kernel has copied records to its start: the array keeps its
  length, and the slots past the records copied keep what they held.
\<close>

definition copy_out :: "'a list \<Rightarrow> 'a list \<Rightarrow> 'a list" where
  "copy_out buf recs = take (length buf) (recs @ drop (length recs) buf)"

text \<open>
  \<^verbatim>\<open>MediaDevice.__read_topology\<close>: the sizing call, the four arrays of the sizes it
  reported, the filling call, and then the objects and their resolution.
\<close>

definition read_topology ::
  "env \<Rightarrow> kernel \<Rightarrow> int \<Rightarrow> world \<Rightarrow> (error + MediaTopology \<times> object list) \<times> world" where
  "read_topology ev k d w =
     (case sys_ioctl_g_topology k d zero_topology w of
        (Inl err, w1) \<Rightarrow> (Inl err, w1)
      | (Inr r1, w1) \<Rightarrow>
          (let t1 = reply_topology r1;
               entities = replicate (unat (num_entities t1)) zero_entity;
               interfaces = replicate (unat (num_interfaces t1)) zero_interface;
               pds = replicate (unat (num_pads t1)) zero_pad;
               lnks = replicate (unat (num_links t1)) zero_link;
               t2 = t1\<lparr>ptr_entities := addressof Array_entities,
                       ptr_interfaces := addressof Array_interfaces,
                       ptr_pads := addressof Array_pads,
                       ptr_links := addressof Array_links\<rparr>
           in case sys_ioctl_g_topology k d t2 w1 of
                (Inl err, w2) \<Rightarrow> (Inl err, w2)
              | (Inr r2, w2) \<Rightarrow>
                  (let t = \<lparr>topo_topology = reply_topology r2,
                            topo_entities = copy_out entities (reply_entities r2),
                            topo_interfaces = copy_out interfaces (reply_interfaces r2),
                            topo_pads = copy_out pds (reply_pads r2),
                            topo_links = copy_out lnks (reply_links r2)\<rparr>
                   in (case build_graph ev t of
                         Inl err \<Rightarrow> Inl err
                       | Inr objs \<Rightarrow> Inr (t, objs), w2))))"

text \<open>
  \<^verbatim>\<open>MediaDevice.__init__\<close>. The close of the descriptor is registered as the last
  statement, after the two reads.
\<close>

definition MediaDevice_init ::
  "env \<Rightarrow> kernel \<Rightarrow> string \<Rightarrow> string \<Rightarrow> world \<Rightarrow> (error + MediaDevice) \<times> world" where
  "MediaDevice_init ev k nm key w =
     (case (if key \<noteq> ''path'' then find_media_device_by_value ev k key nm w else (Inr nm, w)) of
        (Inl err, w0) \<Rightarrow> (Inl err, w0)
      | (Inr path, w0) \<Rightarrow>
     (case sys_open k path w0 of
        (Inl err, w1) \<Rightarrow> (Inl err, w1)
      | (Inr d, w1) \<Rightarrow>
     (case read_device_info ev k d w1 of
        (Inl err, w2) \<Rightarrow> (Inl err, w2)
      | (Inr info, w2) \<Rightarrow>
     (case read_topology ev k d w2 of
        (Inl err, w3) \<Rightarrow> (Inl err, w3)
      | (Inr (t, objs), w3) \<Rightarrow>
          (Inr \<lparr>driver = driver info, model = model info, serial = serial info,
                bus_info = bus_info info, media_version = media_version info,
                hw_revision = hw_revision info, driver_version = driver_version info,
                fd = d, topology = t, objects = objs\<rparr>,
           w3\<lparr>finalizers := finalizers w3 @ [d]\<rparr>)))))"

text \<open>
  The end of the handle's life: when the handle is collected (or the interpreter
  exits), each close that \<^verbatim>\<open>weakref.finalize\<close> registered runs, once.
\<close>

fun run_finalizers :: "kernel \<Rightarrow> int list \<Rightarrow> world \<Rightarrow> world" where
  "run_finalizers k [] w = w"
| "run_finalizers k (d # ds) w = run_finalizers k ds (snd (sys_close k d w))"

definition handle_collected :: "kernel \<Rightarrow> world \<Rightarrow> world" where
  "handle_collected k w = run_finalizers k (finalizers w) (w\<lparr>finalizers := []\<rparr>)"

text \<open>
  Bookkeeping on a history of calls, given the kernel that answered them: the
  descriptors a successful \<^verbatim>\<open>os.open\<close> returned, and the descriptors closed.
\<close>

fun opened_fds :: "kernel \<Rightarrow> syscall list \<Rightarrow> syscall list \<Rightarrow> int list" where
  "opened_fds k before [] = []"
| "opened_fds k before (c # cs) =
     (case c of
        os_open path \<Rightarrow> (case open_result k before path of Inl en \<Rightarrow> [] | Inr d \<Rightarrow> [d])
      | _ \<Rightarrow> [])
     @ opened_fds k (before @ [c]) cs"

fun closed_fds :: "syscall list \<Rightarrow> int list" where
  "closed_fds [] = []"
| "closed_fds (c # cs) = (case c of os_close d \<Rightarrow> [d] | _ \<Rightarrow> []) @ closed_fds cs"


section \<open>What resolution reads\<close>

text \<open>
  An object without the attributes that the \<^verbatim>\<open>_finalize\<close> methods assign. The
  methods read the class, the id and the raw record of the objects of the device, and
  all of these are in this part.
\<close>

fun unresolved :: "object \<Rightarrow> object" where
  "unresolved (Entity e) = Entity (e\<lparr>links := None, pads := None, interface := None\<rparr>)"
| "unresolved (Interface i) = Interface (i\<lparr>links := None\<rparr>)"
| "unresolved (Pad p) = Pad (p\<lparr>links := None, entity := None\<rparr>)"
| "unresolved (Link l) = Link (l\<lparr>links := None, source := None, sink := None\<rparr>)"


section \<open>Dangling references of a snapshot\<close>

text \<open>
  The ids of the records of a snapshot, and whether some id that a pad or a link of
  the snapshot refers to is the id of none of them.
\<close>

definition snapshot_ids :: "MediaTopology \<Rightarrow> u32 list" where
  "snapshot_ids t = map ent_id (topo_entities t) @ map iface_id (topo_interfaces t)
                    @ map pad_id (topo_pads t) @ map link_id (topo_links t)"

definition dangling :: "MediaTopology \<Rightarrow> bool" where
  "dangling t \<longleftrightarrow>
     list_ex (\<lambda>p. pad_entity_id p \<notin> set (snapshot_ids t)) (topo_pads t)
     \<or> list_ex (\<lambda>l. link_source_id l \<notin> set (snapshot_ids t)
                    \<or> link_sink_id l \<notin> set (snapshot_ids t)) (topo_links t)"

section \<open>Enabling and then disabling a link\<close>

text \<open>
  The statements \<^verbatim>\<open>link.enable(); link.disable()\<close> one after the other; an exception
  of the first ends the sequence.
\<close>

definition enable_then_disable ::
  "env \<Rightarrow> kernel \<Rightarrow> MediaDevice \<Rightarrow> ref \<Rightarrow> world \<Rightarrow> error option \<times> MediaDevice \<times> world" where
  "enable_then_disable ev k md l w =
     (case enable ev k md l w of
        (Some err, md1, w1) \<Rightarrow> (Some err, md1, w1)
      | (None, md1, w1) \<Rightarrow> disable k md1 l w1)"

section \<open>Resolved graphs\<close>

text \<open>
  What the resolution pass establishes of a list of objects and the link controller
  keeps: every pad refers to an owning entity of the list, and every link refers to a
  source object and a sink object of the list.
\<close>

definition resolved_object :: "object list \<Rightarrow> object \<Rightarrow> bool" where
  "resolved_object objs ob =
     (case ob of
        Pad pd \<Rightarrow> (case entity pd of None \<Rightarrow> False | Some e \<Rightarrow> e < length objs \<and> is_Entity (objs ! e))
      | Link lk \<Rightarrow> (case source lk of None \<Rightarrow> False | Some r \<Rightarrow> r < length objs)
                   \<and> (case sink lk of None \<Rightarrow> False | Some r \<Rightarrow> r < length objs)
      | _ \<Rightarrow> True)"

definition resolved :: "object list \<Rightarrow> bool" where
  "resolved objs = list_all (resolved_object objs) objs"

section \<open>Concrete surroundings and snapshots\<close>

text \<open>
  Surroundings in which both enumerations accept every value, the enabled flag is
  bit 0 (the value of \<^verbatim>\<open>linux/media.h\<close>), every device node resolves to
  \<^verbatim>\<open>/dev/v4l-subdev0\<close> and every byte string decodes to itself.
\<close>

definition mock_env :: env where
  "mock_env = \<lparr>MediaEntityFunction_member = (\<lambda>_. True),
               MediaInterfaceType_member = (\<lambda>_. True),
               MEDIA_LNK_FL_ENABLED = 1,
               readlines = (\<lambda>_. Inr [''DEVNAME=v4l-subdev0'' @ [CHR 0x0A]]),
               glob = (\<lambda>_. [''/dev/media0'']),
               fnmatch = (\<lambda>a b. a = b),
               decode = Some\<rparr>"

text \<open>
  Two entities, a source pad on the first and a sink pad on the second, one link from
  the one pad to the other, enabled in the snapshot, and no interface.
\<close>

definition two_entity_topology :: MediaTopology where
  "two_entity_topology =
     \<lparr>topo_topology = zero_topology,
      topo_entities = [\<lparr>ent_id = 1, ent_name = ''sensor'', ent_function = 0x20001, ent_flags = 0\<rparr>,
                       \<lparr>ent_id = 2, ent_name = ''capture'', ent_function = 0x10001, ent_flags = 0\<rparr>],
      topo_interfaces = [],
      topo_pads = [\<lparr>pad_id = 3, pad_entity_id = 1, pad_flags = 2, pad_index = 0\<rparr>,
                   \<lparr>pad_id = 4, pad_entity_id = 2, pad_flags = 1, pad_index = 0\<rparr>],
      topo_links = [\<lparr>link_id = 5, link_source_id = 3, link_sink_id = 4, link_flags = 1\<rparr>]\<rparr>"

definition two_entity_objects :: "object list" where
  "two_entity_objects =
     [Entity \<lparr>obj_id = 1, links = None,
              media_entity = \<lparr>ent_id = 1, ent_name = ''sensor'', ent_function = 0x20001, ent_flags = 0\<rparr>,
              name = ''sensor'', entity_function = 0x20001, entity_flags = 0,
              pads = None, interface = None\<rparr>,
      Entity \<lparr>obj_id = 2, links = None,
              media_entity = \<lparr>ent_id = 2, ent_name = ''capture'', ent_function = 0x10001, ent_flags = 0\<rparr>,
              name = ''capture'', entity_function = 0x10001, entity_flags = 0,
              pads = None, interface = None\<rparr>,
      Pad \<lparr>obj_id = 3, links = None,
           media_pad = \<lparr>pad_id = 3, pad_entity_id = 1, pad_flags = 2, pad_index = 0\<rparr>,
           index = 0, entity = None\<rparr>,
      Pad \<lparr>obj_id = 4, links = None,
           media_pad = \<lparr>pad_id = 4, pad_entity_id = 2, pad_flags = 1, pad_index = 0\<rparr>,
           index = 0, entity = None\<rparr>,
      Link \<lparr>obj_id = 5, links = None,
            media_link = \<lparr>link_id = 5, link_source_id = 3, link_sink_id = 4, link_flags = 1\<rparr>,
            flags = 1, source = None, sink = None\<rparr>]"

definition two_entity_graph :: "object list" where
  "two_entity_graph =
     [Entity \<lparr>obj_id = 1, links = Some [],
              media_entity = \<lparr>ent_id = 1, ent_name = ''sensor'', ent_function = 0x20001, ent_flags = 0\<rparr>,
              name = ''sensor'', entity_function = 0x20001, entity_flags = 0,
              pads = Some [2], interface = None\<rparr>,
      Entity \<lparr>obj_id = 2, links = Some [],
              media_entity = \<lparr>ent_id = 2, ent_name = ''capture'', ent_function = 0x10001, ent_flags = 0\<rparr>,
              name = ''capture'', entity_function = 0x10001, entity_flags = 0,
              pads = Some [3], interface = None\<rparr>,
      Pad \<lparr>obj_id = 3, links = Some [4],
           media_pad = \<lparr>pad_id = 3, pad_entity_id = 1, pad_flags = 2, pad_index = 0\<rparr>,
           index = 0, entity = Some 0\<rparr>,
      Pad \<lparr>obj_id = 4, links = Some [4],
           media_pad = \<lparr>pad_id = 4, pad_entity_id = 2, pad_flags = 1, pad_index = 0\<rparr>,
           index = 0, entity = Some 1\<rparr>,
      Link \<lparr>obj_id = 5, links = Some [],
            media_link = \<lparr>link_id = 5, link_source_id = 3, link_sink_id = 4, link_flags = 1\<rparr>,
            flags = 1, source = Some 2, sink = Some 3\<rparr>]"

text \<open>
  One entity with one interface linked to it, and one entity with two interfaces
  linked to it.
\<close>

definition one_interface_topology :: MediaTopology where
  "one_interface_topology =
     \<lparr>topo_topology = zero_topology,
      topo_entities = [\<lparr>ent_id = 1, ent_name = ''sensor'', ent_function = 0x20001, ent_flags = 0\<rparr>],
      topo_interfaces = [\<lparr>iface_id = 2, iface_intf_type = 0x203, iface_major = 81, iface_minor = 3\<rparr>],
      topo_pads = [],
      topo_links = [\<lparr>link_id = 3, link_source_id = 2, link_sink_id = 1, link_flags = 3\<rparr>]\<rparr>"

definition one_interface_objects :: "object list" where
  "one_interface_objects =
     [Entity \<lparr>obj_id = 1, links = None,
              media_entity = \<lparr>ent_id = 1, ent_name = ''sensor'', ent_function = 0x20001, ent_flags = 0\<rparr>,
              name = ''sensor'', entity_function = 0x20001, entity_flags = 0,
              pads = None, interface = None\<rparr>,
      Interface \<lparr>obj_id = 2, links = None,
                 media_iface = \<lparr>iface_id = 2, iface_intf_type = 0x203, iface_major = 81, iface_minor = 3\<rparr>,
                 majorminor = (81, 3), dev_path = ''/dev/v4l-subdev0'', intf_type = 0x203\<rparr>,
      Link \<lparr>obj_id = 3, links = None,
            media_link = \<lparr>link_id = 3, link_source_id = 2, link_sink_id = 1, link_flags = 3\<rparr>,
            flags = 3, source = None, sink = None\<rparr>]"

definition one_interface_graph :: "object list" where
  "one_interface_graph =
     [Entity \<lparr>obj_id = 1, links = Some [2],
              media_entity = \<lparr>ent_id = 1, ent_name = ''sensor'', ent_function = 0x20001, ent_flags = 0\<rparr>,
              name = ''sensor'', entity_function = 0x20001, entity_flags = 0,
              pads = Some [], interface = Some 1\<rparr>,
      Interface \<lparr>obj_id = 2, links = Some [2],
                 media_iface = \<lparr>iface_id = 2, iface_intf_type = 0x203, iface_major = 81, iface_minor = 3\<rparr>,
                 majorminor = (81, 3), dev_path = ''/dev/v4l-subdev0'', intf_type = 0x203\<rparr>,
      Link \<lparr>obj_id = 3, links = Some [],
            media_link = \<lparr>link_id = 3, link_source_id = 2, link_sink_id = 1, link_flags = 3\<rparr>,
            flags = 3, source = Some 1, sink = Some 0\<rparr>]"

definition two_interface_topology :: MediaTopology where
  "two_interface_topology =
     \<lparr>topo_topology = zero_topology,
      topo_entities = [\<lparr>ent_id = 1, ent_name = ''sensor'', ent_function = 0x20001, ent_flags = 0\<rparr>],
      topo_interfaces = [\<lparr>iface_id = 2, iface_intf_type = 0x203, iface_major = 81, iface_minor = 3\<rparr>,
                         \<lparr>iface_id = 3, iface_intf_type = 0x203, iface_major = 81, iface_minor = 4\<rparr>],
      topo_pads = [],
      topo_links = [\<lparr>link_id = 4, link_source_id = 2, link_sink_id = 1, link_flags = 3\<rparr>,
                    \<lparr>link_id = 5, link_source_id = 3, link_sink_id = 1, link_flags = 3\<rparr>]\<rparr>"

definition two_interface_objects :: "object list" where
  "two_interface_objects =
     [Entity \<lparr>obj_id = 1, links = None,
              media_entity = \<lparr>ent_id = 1, ent_name = ''sensor'', ent_function = 0x20001, ent_flags = 0\<rparr>,
              name = ''sensor'', entity_function = 0x20001, entity_flags = 0,
              pads = None, interface = None\<rparr>,
      Interface \<lparr>obj_id = 2, links = None,
                 media_iface = \<lparr>iface_id = 2, iface_intf_type = 0x203, iface_major = 81, iface_minor = 3\<rparr>,
                 majorminor = (81, 3), dev_path = ''/dev/v4l-subdev0'', intf_type = 0x203\<rparr>,
      Interface \<lparr>obj_id = 3, links = None,
                 media_iface = \<lparr>iface_id = 3, iface_intf_type = 0x203, iface_major = 81, iface_minor = 4\<rparr>,
                 majorminor = (81, 4), dev_path = ''/dev/v4l-subdev0'', intf_type = 0x203\<rparr>,
      Link \<lparr>obj_id = 4, links = None,
            media_link = \<lparr>link_id = 4, link_source_id = 2, link_sink_id = 1, link_flags = 3\<rparr>,
            flags = 3, source = None, sink = None\<rparr>,
      Link \<lparr>obj_id = 5, links = None,
            media_link = \<lparr>link_id = 5, link_source_id = 3, link_sink_id = 1, link_flags = 3\<rparr>,
            flags = 3, source = None, sink = None\<rparr>]"

text \<open>A link whose sink id is the id of no record of the snapshot.\<close>

definition dangling_topology :: MediaTopology where
  "dangling_topology =
     \<lparr>topo_topology = zero_topology,
      topo_entities = [\<lparr>ent_id = 1, ent_name = ''sensor'', ent_function = 0x20001, ent_flags = 0\<rparr>],
      topo_interfaces = [],
      topo_pads = [\<lparr>pad_id = 3, pad_entity_id = 1, pad_flags = 2, pad_index = 0\<rparr>],
      topo_links = [\<lparr>link_id = 5, link_source_id = 3, link_sink_id = 9, link_flags = 0\<rparr>]\<rparr>"

text \<open>
  A transport that accepts every call: the device node opens as descriptor 3, and
  the topology ioctl reports the snapshot of the two entities, its sizes when the
  pointers are NULL and its records when they are set.
\<close>

definition mock_info :: media_device_info where
  "mock_info = \<lparr>mdi_driver = ''vimc'', mdi_model = ''VIMC MDEV'', mdi_serial = [],
                 mdi_bus_info = ''platform:vimc'', mdi_media_version = 0x060100,
                 mdi_hw_revision = 0, mdi_driver_version = 0x060100\<rparr>"

definition g_topology_of :: "MediaTopology \<Rightarrow> media_v2_topology \<Rightarrow> topology_reply" where
  "g_topology_of t arg =
     \<lparr>reply_topology = arg\<lparr>topology_version := 1,
                             num_entities := word_of_nat (length (topo_entities t)),
                             num_interfaces := word_of_nat (length (topo_interfaces t)),
                             num_pads := word_of_nat (length (topo_pads t)),
                             num_links := word_of_nat (length (topo_links t))\<rparr>,
      reply_entities = (if ptr_entities arg = NULL then [] else topo_entities t),
      reply_interfaces = (if ptr_interfaces arg = NULL then [] else topo_interfaces t),
      reply_pads = (if ptr_pads arg = NULL then [] else topo_pads t),
      reply_links = (if ptr_links arg = NULL then [] else topo_links t)\<rparr>"

definition mock_kernel :: kernel where
  "mock_kernel = \<lparr>open_result = (\<lambda>_ _. Inr 3),
                  close_result = (\<lambda>_ _. None),
                  device_info_result = (\<lambda>_ _. Inr mock_info),
                  g_topology_result = (\<lambda>_ _ arg. Inr (g_topology_of two_entity_topology arg)),
                  setup_link_result = (\<lambda>_ _ _. None)\<rparr>"

definition mock_world :: world where
  "mock_world = \<lparr>calls = [], finalizers = []\<rparr>"

definition mock_device :: MediaDevice where
  "mock_device = \<lparr>driver = ''vimc'', model = ''VIMC MDEV'', serial = [],
                  bus_info = ''platform:vimc'', media_version = (6, 1, 0), hw_revision = 0,
                  driver_version = (6, 1, 0), fd = 3,
                  topology = two_entity_topology\<lparr>topo_topology :=
                    \<lparr>topology_version = 1, num_entities = 2, ptr_entities = addressof Array_entities,
                     num_interfaces = 0, ptr_interfaces = addressof Array_interfaces,
                     num_pads = 2, ptr_pads = addressof Array_pads,
                     num_links = 1, ptr_links = addressof Array_links\<rparr>\<rparr>,
                  objects = two_entity_graph\<rparr>"

text \<open>A device whose graph is the entity with its one interface.\<close>

definition interface_device :: MediaDevice where
  "interface_device = mock_device\<lparr>topology := one_interface_topology, objects := one_interface_graph\<rparr>"

text \<open>A transport on which the setup-link ioctl fails with EBUSY.\<close>

definition busy_kernel :: kernel where
  "busy_kernel = mock_kernel\<lparr>setup_link_result := (\<lambda>_ _ _. Some 16)\<rparr>"

text \<open>A node that is not a media device: the device-info ioctl fails with ENOTTY.\<close>

definition not_media_kernel :: kernel where
  "not_media_kernel = mock_kernel\<lparr>device_info_result := (\<lambda>_ _. Inl 25)\<rparr>"

text \<open>
  A transport whose topology shrinks between the two calls: the sizing call reports
  three links, the filling call reports two and copies two link records.
\<close>

definition hotplug_topology :: MediaTopology where
  "hotplug_topology = two_entity_topology\<lparr>topo_links :=
     [\<lparr>link_id = 5, link_source_id = 3, link_sink_id = 4, link_flags = 1\<rparr>,
      \<lparr>link_id = 6, link_source_id = 3, link_sink_id = 4, link_flags = 0\<rparr>]\<rparr>"

definition hotplug_kernel :: kernel where
  "hotplug_kernel = mock_kernel\<lparr>g_topology_result :=
     (\<lambda>_ _ arg. if ptr_links arg = NULL
                 then Inr ((g_topology_of hotplug_topology arg)
                            \<lparr>reply_topology := (reply_topology (g_topology_of hotplug_topology arg))
                                                  \<lparr>num_links := 3\<rparr>\<rparr>)
                 else Inr (g_topology_of hotplug_topology arg))\<rparr>"

section \<open>Resolution reads only the unresolved part of the objects\<close>


lemma unresolved_is_Entity [simp]: "is_Entity (unresolved x) = is_Entity x"
  by (cases x) simp_all

lemma unresolved_is_Interface [simp]: "is_Interface (unresolved x) = is_Interface x"
  by (cases x) simp_all

lemma unresolved_is_Pad [simp]: "is_Pad (unresolved x) = is_Pad x"
  by (cases x) simp_all

lemma unresolved_is_Link [simp]: "is_Link (unresolved x) = is_Link x"
  by (cases x) simp_all

lemma unresolved_the_id [simp]: "the_id (unresolved x) = the_id x"
  by (cases x) simp_all

lemma unresolved_media_link:
  "is_Link x \<Longrightarrow> media_link (the_Link (unresolved x)) = media_link (the_Link x)"
  by (cases x) simp_all

lemma unresolved_media_pad:
  "is_Pad x \<Longrightarrow> media_pad (the_Pad (unresolved x)) = media_pad (the_Pad x)"
  by (cases x) simp_all

lemma same_unresolved_length:
  "map unresolved a = map unresolved b \<Longrightarrow> length a = length b"
  by (rule map_eq_imp_length_eq)

lemma same_unresolved_nth:
  assumes "map unresolved a = map unresolved b" and "r < length a"
  shows "unresolved (a ! r) = unresolved (b ! r)"
proof -
  have "map unresolved a ! r = map unresolved b ! r" using assms(1) by simp
  then show ?thesis using assms(2) same_unresolved_length[OF assms(1)] by simp
qed

lemma same_unresolved_is:
  assumes "map unresolved a = map unresolved b" and "r < length a"
  shows "is_Entity (a ! r) = is_Entity (b ! r)"
    and "is_Interface (a ! r) = is_Interface (b ! r)"
    and "is_Pad (a ! r) = is_Pad (b ! r)"
    and "is_Link (a ! r) = is_Link (b ! r)"
    and "the_id (a ! r) = the_id (b ! r)"
proof -
  note u = same_unresolved_nth[OF assms]
  show "is_Entity (a ! r) = is_Entity (b ! r)"
    using arg_cong[OF u, of is_Entity] by simp
  show "is_Interface (a ! r) = is_Interface (b ! r)"
    using arg_cong[OF u, of is_Interface] by simp
  show "is_Pad (a ! r) = is_Pad (b ! r)"
    using arg_cong[OF u, of is_Pad] by simp
  show "is_Link (a ! r) = is_Link (b ! r)"
    using arg_cong[OF u, of is_Link] by simp
  show "the_id (a ! r) = the_id (b ! r)"
    using arg_cong[OF u, of the_id] by simp
qed

lemma same_unresolved_media_link:
  assumes "map unresolved a = map unresolved b" and "r < length a" and "is_Link (a ! r)"
  shows "media_link (the_Link (a ! r)) = media_link (the_Link (b ! r))"
proof -
  have "is_Link (b ! r)" using same_unresolved_is(4)[OF assms(1,2)] assms(3) by simp
  then show ?thesis
    using arg_cong[OF same_unresolved_nth[OF assms(1,2)], of "\<lambda>x. media_link (the_Link x)"]
      unresolved_media_link assms(3) by simp
qed

lemma same_unresolved_media_pad:
  assumes "map unresolved a = map unresolved b" and "r < length a" and "is_Pad (a ! r)"
  shows "media_pad (the_Pad (a ! r)) = media_pad (the_Pad (b ! r))"
proof -
  have "is_Pad (b ! r)" using same_unresolved_is(3)[OF assms(1,2)] assms(3) by simp
  then show ?thesis
    using arg_cong[OF same_unresolved_nth[OF assms(1,2)], of "\<lambda>x. media_pad (the_Pad x)"]
      unresolved_media_pad assms(3) by simp
qed

lemma filter_upt_cong:
  assumes "\<And>r. r < n \<Longrightarrow> P r = Q r"
  shows "filter P [0..<n] = filter Q [0..<n]"
  by (rule filter_cong) (use assms in auto)

lemma same_unresolved_entities:
  assumes "map unresolved a = map unresolved b"
  shows "md_entities a = md_entities b"
  unfolding md_entities_def same_unresolved_length[OF assms, symmetric]
  by (rule filter_upt_cong) (rule same_unresolved_is[OF assms])

lemma same_unresolved_pads:
  assumes "map unresolved a = map unresolved b"
  shows "md_pads a = md_pads b"
  unfolding md_pads_def same_unresolved_length[OF assms, symmetric]
  by (rule filter_upt_cong) (rule same_unresolved_is[OF assms])

lemma same_unresolved_links:
  assumes "map unresolved a = map unresolved b"
  shows "md_links a = md_links b"
  unfolding md_links_def same_unresolved_length[OF assms, symmetric]
  by (rule filter_upt_cong) (rule same_unresolved_is[OF assms])

lemma same_unresolved_find_id:
  assumes "map unresolved a = map unresolved b"
  shows "find_id a i = find_id b i"
proof -
  have "filter (\<lambda>r. the_id (a ! r) = i) [0..<length a] = filter (\<lambda>r. the_id (b ! r) = i) [0..<length a]"
    by (rule filter_upt_cong) (simp add: same_unresolved_is(5)[OF assms])
  then show ?thesis
    unfolding find_id_def same_unresolved_length[OF assms, symmetric] by simp
qed


lemma py_next_default_Some_mem: "py_next_default xs = Some x \<Longrightarrow> x \<in> set xs"
  by (cases xs) auto

lemma py_next_Inr_mem: "py_next xs = Inr x \<Longrightarrow> x \<in> set xs"
  by (cases xs) auto

lemma find_id_Some:
  assumes "find_id objs i = Some r"
  shows "r < length objs" and "the_id (objs ! r) = i"
  using py_next_default_Some_mem[OF assms[unfolded find_id_def]] by auto

lemma md_links_mem: "l \<in> set (md_links objs) \<longleftrightarrow> l < length objs \<and> is_Link (objs ! l)"
  by (auto simp: md_links_def)

lemma md_pads_mem: "p \<in> set (md_pads objs) \<longleftrightarrow> p < length objs \<and> is_Pad (objs ! p)"
  by (auto simp: md_pads_def)

lemma md_entities_mem: "e \<in> set (md_entities objs) \<longleftrightarrow> e < length objs \<and> is_Entity (objs ! e)"
  by (auto simp: md_entities_def)

lemma MediaObject_finalize_mem:
  "l \<in> set (MediaObject_finalize objs i) \<Longrightarrow> l < length objs \<and> is_Link (objs ! l)"
  by (auto simp: MediaObject_finalize_def md_links_mem)

lemma same_unresolved_MediaObject_finalize:
  assumes "map unresolved a = map unresolved b"
  shows "MediaObject_finalize a i = MediaObject_finalize b i"
  unfolding MediaObject_finalize_def same_unresolved_links[OF assms, symmetric]
  by (rule filter_cong[OF refl])
     (simp add: md_links_mem same_unresolved_media_link[OF assms])

lemma same_unresolved_entity_ifaces:
  assumes "map unresolved a = map unresolved b"
    and "\<And>l. l \<in> set ls \<Longrightarrow> l < length a \<and> is_Link (a ! l)"
  shows "entity_ifaces a ls = entity_ifaces b ls"
proof -
  have look: "(case find_id a i of None \<Rightarrow> [] | Some ob \<Rightarrow> if is_Interface (a ! ob) then [ob] else [])
            = (case find_id b i of None \<Rightarrow> [] | Some ob \<Rightarrow> if is_Interface (b ! ob) then [ob] else [])" for i
  proof (cases "find_id a i")
    case None
    then show ?thesis using same_unresolved_find_id[OF assms(1), of i] by simp
  next
    case (Some ob)
    then show ?thesis
      using same_unresolved_find_id[OF assms(1), of i] find_id_Some(1)[OF Some]
        same_unresolved_is(2)[OF assms(1), of ob] by simp
  qed
  show ?thesis
    unfolding entity_ifaces_def
    by (rule arg_cong[where f=concat], rule map_cong[OF refl])
       (simp add: look same_unresolved_media_link[OF assms(1)] assms(2))
qed

lemma same_unresolved_MediaEntity_finalize:
  assumes "map unresolved a = map unresolved b"
  shows "MediaEntity_finalize a e = MediaEntity_finalize b e"
proof -
  have p: "filter (\<lambda>p. uint (pad_entity_id (media_pad (the_Pad (a ! p)))) = i) (md_pads a)
         = filter (\<lambda>p. uint (pad_entity_id (media_pad (the_Pad (b ! p)))) = i) (md_pads b)" for i
    unfolding same_unresolved_pads[OF assms, symmetric]
    by (rule filter_cong[OF refl]) (simp add: md_pads_mem same_unresolved_media_pad[OF assms])
  have i: "entity_ifaces a (MediaObject_finalize b i) = entity_ifaces b (MediaObject_finalize b i)" for i
    using same_unresolved_entity_ifaces[OF assms, of "MediaObject_finalize a i"]
      MediaObject_finalize_mem[of _ a i] same_unresolved_MediaObject_finalize[OF assms, of i]
    by simp
  show ?thesis
    unfolding MediaEntity_finalize_def Let_def
    by (simp add: p i same_unresolved_MediaObject_finalize[OF assms] cong: if_cong)
qed

lemma same_unresolved_MediaPad_finalize:
  assumes "map unresolved a = map unresolved b"
  shows "MediaPad_finalize a p = MediaPad_finalize b p"
proof -
  have "filter (\<lambda>e. the_id (a ! e) = i) (md_entities a) = filter (\<lambda>e. the_id (b ! e) = i) (md_entities b)" for i
    unfolding same_unresolved_entities[OF assms, symmetric]
    by (rule filter_cong[OF refl]) (simp add: md_entities_mem same_unresolved_is(5)[OF assms])
  then show ?thesis
    unfolding MediaPad_finalize_def Let_def
    by (simp add: same_unresolved_MediaObject_finalize[OF assms] cong: sum.case_cong)
qed

lemma same_unresolved_MediaLink_finalize:
  assumes "map unresolved a = map unresolved b"
  shows "MediaLink_finalize a l = MediaLink_finalize b l"
proof -
  have "filter (\<lambda>e. the_id (a ! e) = i) [0..<length a] = filter (\<lambda>e. the_id (b ! e) = i) [0..<length b]" for i
    unfolding same_unresolved_length[OF assms, symmetric]
    by (rule filter_upt_cong) (simp add: same_unresolved_is(5)[OF assms])
  then show ?thesis
    unfolding MediaLink_finalize_def Let_def
    by (simp add: same_unresolved_MediaObject_finalize[OF assms] cong: sum.case_cong)
qed

lemma same_unresolved_finalize:
  assumes "map unresolved a = map unresolved b"
  shows "finalize a x = finalize b x"
  by (cases x)
     (simp_all add: same_unresolved_MediaEntity_finalize[OF assms]
        same_unresolved_MediaPad_finalize[OF assms] same_unresolved_MediaLink_finalize[OF assms]
        MediaInterface_finalize_def same_unresolved_MediaObject_finalize[OF assms])

lemma finalize_unresolved:
  assumes "finalize objs x = Inr y"
  shows "unresolved y = unresolved x"
proof (cases x)
  case (Entity e)
  then show ?thesis using assms
    by (auto simp: MediaEntity_finalize_def Let_def split: if_splits)
next
  case (Interface i)
  then show ?thesis using assms by (auto simp: MediaInterface_finalize_def)
next
  case (Pad p)
  then show ?thesis using assms
    by (auto simp: MediaPad_finalize_def Let_def split: sum.splits)
next
  case (Link l)
  then show ?thesis using assms
    by (auto simp: MediaLink_finalize_def Let_def split: sum.splits)
qed


lemma finalize_update_unresolved:
  assumes "finalize objs (objs ! r) = Inr ob"
  shows "map unresolved (objs[r := ob]) = map unresolved objs"
proof (cases "r < length objs")
  case True
  have "map unresolved (objs[r := ob]) = (map unresolved objs)[r := unresolved (objs ! r)]"
    by (simp add: map_update finalize_unresolved[OF assms])
  also have "\<dots> = map unresolved objs"
    using True by (metis list_update_id nth_map)
  finally show ?thesis .
next
  case False
  then have "objs[r := ob] = objs" by (simp add: list_update_beyond)
  then show ?thesis by simp
qed

lemma finalize_loop_Inr:
  assumes "finalize_loop objs rs = Inr g" and "distinct rs"
  shows "length g = length objs \<and> map unresolved g = map unresolved objs
       \<and> (\<forall>r\<in>set rs. r < length objs \<longrightarrow> finalize objs (objs ! r) = Inr (g ! r))
       \<and> (\<forall>r. r \<notin> set rs \<longrightarrow> g ! r = objs ! r)"
  using assms
proof (induction rs arbitrary: objs)
  case Nil
  then show ?case by simp
next
  case (Cons r0 rs)
  from Cons.prems(1) obtain ob where ob: "finalize objs (objs ! r0) = Inr ob"
    and rest: "finalize_loop (objs[r0 := ob]) rs = Inr g"
    by (auto split: sum.splits)
  let ?objs1 = "objs[r0 := ob]"
  have u1: "map unresolved ?objs1 = map unresolved objs"
    by (rule finalize_update_unresolved[OF ob])
  from Cons.prems(2) have d: "distinct rs" and r0: "r0 \<notin> set rs" by auto
  note ih = Cons.IH[OF rest d]
  have len: "length g = length objs" using ih by simp
  have un: "map unresolved g = map unresolved objs" using ih u1 by simp
  have keep: "\<forall>r. r \<notin> set (r0 # rs) \<longrightarrow> g ! r = objs ! r"
    using ih by auto
  have res: "\<forall>r\<in>set (r0 # rs). r < length objs \<longrightarrow> finalize objs (objs ! r) = Inr (g ! r)"
  proof (intro ballI impI)
    fix r assume r: "r \<in> set (r0 # rs)" and lt: "r < length objs"
    show "finalize objs (objs ! r) = Inr (g ! r)"
    proof (cases "r = r0")
      case True
      have "g ! r0 = ?objs1 ! r0" using ih r0 by blast
      then show ?thesis using True ob lt by simp
    next
      case False
      then have "r \<in> set rs" using r by simp
      then have "finalize ?objs1 (?objs1 ! r) = Inr (g ! r)" using ih lt by simp
      then show ?thesis using False same_unresolved_finalize[OF u1] by simp
    qed
  qed
  show ?case using len un res keep by blast
qed

lemma finalize_loop_Inl:
  assumes "r \<in> set rs" and "finalize objs (objs ! r) = Inl err"
  shows "\<exists>err'. finalize_loop objs rs = Inl err'"
  using assms
proof (induction rs arbitrary: objs)
  case Nil
  then show ?case by simp
next
  case (Cons r0 rs)
  show ?case
  proof (cases "finalize objs (objs ! r0)")
    case (Inl e0)
    then show ?thesis by simp
  next
    case (Inr ob)
    then have ne: "r \<noteq> r0" using Cons.prems(2) by auto
    then have mem: "r \<in> set rs" using Cons.prems(1) by simp
    have "finalize (objs[r0 := ob]) (objs[r0 := ob] ! r) = Inl err"
      using same_unresolved_finalize[OF finalize_update_unresolved[OF Inr]] ne Cons.prems(2)
      by simp
    from Cons.IH[OF mem this] show ?thesis using Inr by simp
  qed
qed

lemma finalize_loop_succeeds:
  assumes "\<forall>r\<in>set rs. \<exists>ob. finalize objs (objs ! r) = Inr ob" and "distinct rs"
  shows "\<exists>g. finalize_loop objs rs = Inr g"
  using assms
proof (induction rs arbitrary: objs)
  case Nil
  then show ?case by simp
next
  case (Cons r0 rs)
  from Cons.prems(1) obtain ob where ob: "finalize objs (objs ! r0) = Inr ob" by auto
  have "\<forall>r\<in>set rs. \<exists>ob'. finalize (objs[r0 := ob]) (objs[r0 := ob] ! r) = Inr ob'"
  proof
    fix r assume r: "r \<in> set rs"
    then have "r \<noteq> r0" using Cons.prems(2) by auto
    then show "\<exists>ob'. finalize (objs[r0 := ob]) (objs[r0 := ob] ! r) = Inr ob'"
      using same_unresolved_finalize[OF finalize_update_unresolved[OF ob]] Cons.prems(1) r
      by simp
  qed
  from Cons.IH[OF this] Cons.prems(2) show ?case using ob by simp
qed

lemma finalize_all_Inr:
  assumes "finalize_all objs = Inr g"
  shows "length g = length objs"
    and "map unresolved g = map unresolved objs"
    and "r < length objs \<Longrightarrow> finalize objs (objs ! r) = Inr (g ! r)"
  using finalize_loop_Inr[OF assms[unfolded finalize_all_def]] by auto

lemma finalize_all_Inl:
  assumes "r < length objs" and "finalize objs (objs ! r) = Inl err"
  shows "\<exists>err'. finalize_all objs = Inl err'"
  unfolding finalize_all_def
  by (rule finalize_loop_Inl[OF _ assms(2)]) (use assms(1) in simp)

lemma finalize_all_succeeds:
  assumes "\<And>r. r < length objs \<Longrightarrow> \<exists>ob. finalize objs (objs ! r) = Inr ob"
  shows "\<exists>g. finalize_all objs = Inr g"
  unfolding finalize_all_def
  by (rule finalize_loop_succeeds) (use assms in auto)



section \<open>The concrete snapshot, evaluated\<close>

lemmas eval_defs = MediaEntity_init_def decode_ascii_def MediaPad_init_def MediaLink_init_def
      finalize_all_def MediaEntity_finalize_def MediaPad_finalize_def MediaLink_finalize_def
      MediaInterface_finalize_def
      MediaObject_finalize_def entity_ifaces_def find_id_def md_links_def md_pads_def md_entities_def
      upt_rec Let_def

lemma two_entity_wrap: "wrap_objects mock_env two_entity_topology = Inr two_entity_objects"
  by (simp add: wrap_objects_def two_entity_topology_def mock_env_def two_entity_objects_def
      MediaEntity_init_def decode_ascii_def MediaPad_init_def MediaLink_init_def)

lemma two_entity_finalize: "finalize_all two_entity_objects = Inr two_entity_graph"
  by (simp add: two_entity_objects_def two_entity_graph_def eval_defs)

lemma two_entity_build: "build_graph mock_env two_entity_topology = Inr two_entity_graph"
  by (simp add: build_graph_def two_entity_wrap two_entity_finalize)

section \<open>Lookup by id\<close>


lemma py_next_default_filter_None:
  "py_next_default (filter P xs) = None \<longleftrightarrow> (\<forall>x\<in>set xs. \<not> P x)"
  by (induction xs) auto

lemma filter_eq_upt: "r < n \<Longrightarrow> filter (\<lambda>x. x = r) [0..<n] = [r]"
proof (induction n)
  case 0
  then show ?case by simp
next
  case (Suc n)
  show ?case
  proof (cases "r = n")
    case True
    have "filter (\<lambda>x. x = n) [0..<n] = []" by (simp add: filter_empty_conv)
    then show ?thesis using True by simp
  next
    case False
    then have "r < n" using Suc.prems by simp
    from Suc.IH[OF this] show ?thesis using False by simp
  qed
qed

lemma filter_upt_unique:
  assumes "r < n" and "P r" and "\<forall>r'<n. P r' \<longrightarrow> r' = r"
  shows "filter P [0..<n] = [r]"
proof -
  have "filter P [0..<n] = filter (\<lambda>x. x = r) [0..<n]"
    by (rule filter_upt_cong) (use assms in blast)
  then show ?thesis using filter_eq_upt[OF assms(1)] by simp
qed


text \<open>
  Claim C10. \<^verbatim>\<open>MediaDevice.find_id\<close> on any list of objects, a resolved graph or
  not, and any integer: when exactly one object has the id, the result is that
  object; when no object has the id, the result is None and nothing is raised
  (the function has no exception among its results).
\<close>

theorem find_id_unique_or_None:
  "(r < length objs \<and> the_id (objs ! r) = i
      \<and> (\<forall>r'<length objs. the_id (objs ! r') = i \<longrightarrow> r' = r)
     \<longrightarrow> find_id objs i = Some r)
   \<and> ((\<forall>r<length objs. the_id (objs ! r) \<noteq> i) \<longrightarrow> find_id objs i = None)"
proof (intro conjI impI)
  assume "r < length objs \<and> the_id (objs ! r) = i
      \<and> (\<forall>r'<length objs. the_id (objs ! r') = i \<longrightarrow> r' = r)"
  then have "filter (\<lambda>r. the_id (objs ! r) = i) [0..<length objs] = [r]"
    by (intro filter_upt_unique) auto
  then show "find_id objs i = Some r" by (simp add: find_id_def)
next
  assume "\<forall>r<length objs. the_id (objs ! r) \<noteq> i"
  then show "find_id objs i = None"
    by (simp add: find_id_def py_next_default_filter_None)
qed

theorem find_id_unique_or_None_witness:
  "find_id [Pad (MediaPad_init \<lparr>pad_id = 5, pad_entity_id = 1, pad_flags = 0, pad_index = 0\<rparr>),
            Link (MediaLink_init \<lparr>link_id = 7, link_source_id = 5, link_sink_id = 6, link_flags = 0\<rparr>)] 7
     = Some 1
   \<and> find_id [Pad (MediaPad_init \<lparr>pad_id = 5, pad_entity_id = 1, pad_flags = 0, pad_index = 0\<rparr>),
            Link (MediaLink_init \<lparr>link_id = 7, link_source_id = 5, link_sink_id = 6, link_flags = 0\<rparr>)] 9
     = None"
proof -
  let ?objs = "[Pad (MediaPad_init \<lparr>pad_id = 5, pad_entity_id = 1, pad_flags = 0, pad_index = 0\<rparr>),
            Link (MediaLink_init \<lparr>link_id = 7, link_source_id = 5, link_sink_id = 6, link_flags = 0\<rparr>)]"
  have ids: "the_id (?objs ! 0) = 5" "the_id (?objs ! Suc 0) = 7"
    by (simp_all add: MediaPad_init_def MediaLink_init_def)
  have two: "r < length ?objs \<longleftrightarrow> r = 0 \<or> r = Suc 0" for r by auto
  have h1: "1 < length ?objs \<and> the_id (?objs ! 1) = 7
      \<and> (\<forall>r'<length ?objs. the_id (?objs ! r') = 7 \<longrightarrow> r' = 1)"
    unfolding two using ids by auto
  have h2: "\<forall>r<length ?objs. the_id (?objs ! r) \<noteq> 9"
    unfolding two using ids by auto
  show ?thesis
    using find_id_unique_or_None[of 1 ?objs 7] find_id_unique_or_None[of 1 ?objs 9] h1 h2
    by blast
qed


section \<open>Pads and their owners\<close>
lemma count_list_distinct_mem:
  "distinct xs \<Longrightarrow> x \<in> set xs \<Longrightarrow> count_list xs x = 1"
  by (induction xs) auto

lemma map_sum_Inr_iff: "map_sum f g s = Inr y \<longleftrightarrow> (\<exists>x. s = Inr x \<and> y = g x)"
  by (cases s) auto

lemma map_sum_Inl_iff: "map_sum f g s = Inl y \<longleftrightarrow> (\<exists>x. s = Inl x \<and> y = f x)"
  by (cases s) auto

lemma finalize_Inr_Pad:
  "finalize objs x = Inr (Pad pd) \<Longrightarrow> \<exists>pd0. x = Pad pd0 \<and> MediaPad_finalize objs pd0 = Inr pd"
  by (cases x) (auto simp: map_sum_Inr_iff)

lemma finalize_Entity_Inr:
  "finalize objs (Entity e0) = Inr ob \<Longrightarrow> \<exists>en. ob = Entity en \<and> MediaEntity_finalize objs e0 = Inr en"
  by (cases "MediaEntity_finalize objs e0") auto


text \<open>
  Claim C3. When resolution succeeds, every pad of the resolved graph refers to an
  owning entity that is an entity of the graph, and the list of pads of that entity
  holds the pad exactly once.
\<close>

theorem resolved_pad_owner:
  assumes "finalize_all objs = Inr g" and "p < length g" and "g ! p = Pad pd"
  shows "\<exists>e en ps. entity pd = Some e \<and> e < length g \<and> g ! e = Entity en
                   \<and> pads en = Some ps \<and> count_list ps p = 1"
proof -
  note fin = finalize_all_Inr[OF assms(1)]
  have plt: "p < length objs" using assms(2) fin(1) by simp
  from fin(3)[OF plt] assms(3) have "finalize objs (objs ! p) = Inr (Pad pd)" by simp
  then obtain pd0 where pd0: "objs ! p = Pad pd0" and pf: "MediaPad_finalize objs pd0 = Inr pd"
    using finalize_Inr_Pad by blast
  from pf obtain e where nx: "py_next (filter (\<lambda>e. the_id (objs ! e) = uint (pad_entity_id (media_pad pd0)))
                         (md_entities objs)) = Inr e" and ent: "entity pd = Some e"
    by (auto simp: MediaPad_finalize_def Let_def split: sum.splits)
  from py_next_Inr_mem[OF nx] have elt: "e < length objs" and ise: "is_Entity (objs ! e)"
    and eid: "the_id (objs ! e) = uint (pad_entity_id (media_pad pd0))"
    by (auto simp: md_entities_mem)
  from ise obtain e0 where e0: "objs ! e = Entity e0" by (cases "objs ! e") auto
  from fin(3)[OF elt] e0 obtain en where en: "g ! e = Entity en"
    and ef: "MediaEntity_finalize objs e0 = Inr en"
    using finalize_Entity_Inr[of objs e0 "g ! e"] by auto
  let ?ps = "filter (\<lambda>p. uint (pad_entity_id (media_pad (the_Pad (objs ! p)))) = obj_id e0) (md_pads objs)"
  from ef have ps: "pads en = Some ?ps"
    by (auto simp: MediaEntity_finalize_def Let_def split: if_splits)
  have "distinct ?ps" by (simp add: md_pads_def)
  moreover have "p \<in> set ?ps"
    using plt pd0 eid e0 by (simp add: md_pads_mem)
  ultimately have "count_list ?ps p = 1" by (rule count_list_distinct_mem)
  then show ?thesis using ent elt fin(1) en ps by auto
qed


theorem resolved_pad_owner_witness:
  "finalize_all two_entity_objects = Inr two_entity_graph
   \<and> 2 < length two_entity_graph
   \<and> two_entity_graph ! 2 = Pad (the_Pad (two_entity_graph ! 2))
   \<and> (\<exists>e en ps. entity (the_Pad (two_entity_graph ! 2)) = Some e \<and> e < length two_entity_graph
          \<and> two_entity_graph ! e = Entity en \<and> pads en = Some ps \<and> count_list ps 2 = 1)"
proof -
  have h: "2 < length two_entity_graph"
    "two_entity_graph ! 2 = Pad (the_Pad (two_entity_graph ! 2))"
    by (simp_all add: two_entity_graph_def)
  show ?thesis
    using resolved_pad_owner[OF two_entity_finalize h] two_entity_finalize h by blast
qed


section \<open>The objects of a snapshot\<close>


lemma py_next_Inl: "py_next xs = Inl err \<Longrightarrow> err = StopIteration"
  by (cases xs) auto

lemma map_result_Inr:
  "map_result f xs = Inr ys \<Longrightarrow> list_all2 (\<lambda>x y. f x = Inr y) xs ys"
  by (induction xs arbitrary: ys) (auto split: sum.splits)

lemma MediaEntity_init_Inr:
  assumes "MediaEntity_init ev me = Inr e"
  shows "obj_id e = uint (ent_id me)" and "interface e = None" and "media_entity e = me"
  using assms by (auto simp: MediaEntity_init_def split: sum.splits if_splits)

lemma MediaInterface_init_Inr:
  assumes "MediaInterface_init ev mi = Inr i"
  shows "obj_id i = uint (iface_id mi)"
  using assms by (auto simp: MediaInterface_init_def split: sum.splits if_splits)

lemma wrap_objects_Inr:
  assumes "wrap_objects ev t = Inr objs"
  obtains es ifs where
    "objs = map Entity es @ map Interface ifs
            @ map (\<lambda>p. Pad (MediaPad_init p)) (topo_pads t)
            @ map (\<lambda>l. Link (MediaLink_init l)) (topo_links t)"
    and "list_all2 (\<lambda>x y. MediaEntity_init ev x = Inr y) (topo_entities t) es"
    and "list_all2 (\<lambda>x y. MediaInterface_init ev x = Inr y) (topo_interfaces t) ifs"
proof -
  from assms obtain es ifs where
    e: "map_result (MediaEntity_init ev) (topo_entities t) = Inr es"
    and i: "map_result (MediaInterface_init ev) (topo_interfaces t) = Inr ifs"
    and o: "objs = map Entity es @ map Interface ifs
            @ map (\<lambda>p. Pad (MediaPad_init p)) (topo_pads t)
            @ map (\<lambda>l. Link (MediaLink_init l)) (topo_links t)"
    by (auto simp: wrap_objects_def split: sum.splits)
  show thesis
    by (rule that[OF o map_result_Inr[OF e] map_result_Inr[OF i]])
qed

lemma list_all2_map_eq:
  assumes "list_all2 (\<lambda>x y. P x y) xs ys" and "\<And>x y. P x y \<Longrightarrow> f y = g x"
  shows "map f ys = map g xs"
  using assms(1) by (induction rule: list_all2_induct) (auto simp: assms(2))

lemma wrap_objects_ids:
  assumes "wrap_objects ev t = Inr objs"
  shows "map the_id objs = map uint (snapshot_ids t)"
proof -
  from assms obtain es ifs where
    o: "objs = map Entity es @ map Interface ifs
            @ map (\<lambda>p. Pad (MediaPad_init p)) (topo_pads t)
            @ map (\<lambda>l. Link (MediaLink_init l)) (topo_links t)"
    and e: "list_all2 (\<lambda>x y. MediaEntity_init ev x = Inr y) (topo_entities t) es"
    and i: "list_all2 (\<lambda>x y. MediaInterface_init ev x = Inr y) (topo_interfaces t) ifs"
    by (rule wrap_objects_Inr)
  have 1: "map obj_id es = map (\<lambda>x. uint (ent_id x)) (topo_entities t)"
    by (rule list_all2_map_eq[OF e]) (rule MediaEntity_init_Inr(1))
  have 2: "map obj_id ifs = map (\<lambda>x. uint (iface_id x)) (topo_interfaces t)"
    by (rule list_all2_map_eq[OF i]) (rule MediaInterface_init_Inr(1))
  show ?thesis
    unfolding o snapshot_ids_def using 1 2
    by (simp add: comp_def MediaPad_init_def MediaLink_init_def)
qed

lemma wrap_objects_the_id_mem:
  assumes "wrap_objects ev t = Inr objs" and "r < length objs"
  shows "\<exists>x\<in>set (snapshot_ids t). the_id (objs ! r) = uint x"
proof -
  have "the_id (objs ! r) = map the_id objs ! r" using assms(2) by simp
  also have "\<dots> = map uint (snapshot_ids t) ! r" by (simp add: wrap_objects_ids[OF assms(1)])
  finally have "the_id (objs ! r) \<in> set (map uint (snapshot_ids t))"
    using assms(2) wrap_objects_ids[OF assms(1)]
    by (metis length_map nth_mem)
  then show ?thesis by auto
qed

lemma no_object_with_id:
  assumes "wrap_objects ev t = Inr objs" and "x \<notin> set (snapshot_ids t)"
  shows "filter (\<lambda>r. the_id (objs ! r) = uint x) rs = [] \<or> \<not> set rs \<subseteq> {..<length objs}"
proof (cases "set rs \<subseteq> {..<length objs}")
  case True
  have "\<forall>r\<in>set rs. the_id (objs ! r) \<noteq> uint x"
  proof
    fix r assume "r \<in> set rs"
    then have "r < length objs" using True by auto
    from wrap_objects_the_id_mem[OF assms(1) this] assms(2)
    show "the_id (objs ! r) \<noteq> uint x" by (auto dest: word_uint_eqI)
  qed
  then show ?thesis by (simp add: filter_empty_conv)
next
  case False
  then show ?thesis by simp
qed

lemma wrap_objects_pad_mem:
  assumes "wrap_objects ev t = Inr objs" and "p \<in> set (topo_pads t)"
  shows "\<exists>r<length objs. objs ! r = Pad (MediaPad_init p)"
proof -
  from assms(1) obtain es ifs where
    o: "objs = map Entity es @ map Interface ifs
            @ map (\<lambda>p. Pad (MediaPad_init p)) (topo_pads t)
            @ map (\<lambda>l. Link (MediaLink_init l)) (topo_links t)"
    by (rule wrap_objects_Inr)
  have "Pad (MediaPad_init p) \<in> set objs" unfolding o using assms(2) by auto
  then show ?thesis by (simp add: in_set_conv_nth)
qed

lemma wrap_objects_link_mem:
  assumes "wrap_objects ev t = Inr objs" and "l \<in> set (topo_links t)"
  shows "\<exists>r<length objs. objs ! r = Link (MediaLink_init l)"
proof -
  from assms(1) obtain es ifs where
    o: "objs = map Entity es @ map Interface ifs
            @ map (\<lambda>p. Pad (MediaPad_init p)) (topo_pads t)
            @ map (\<lambda>l. Link (MediaLink_init l)) (topo_links t)"
    by (rule wrap_objects_Inr)
  have "Link (MediaLink_init l) \<in> set objs" unfolding o using assms(2) by auto
  then show ?thesis by (simp add: in_set_conv_nth)
qed

lemma dangling_pad_finalize:
  assumes "wrap_objects ev t = Inr objs" and "pad_entity_id p \<notin> set (snapshot_ids t)"
  shows "finalize objs (Pad (MediaPad_init p)) = Inl StopIteration"
proof -
  have "set (md_entities objs) \<subseteq> {..<length objs}" by (auto simp: md_entities_mem)
  with no_object_with_id[OF assms, of "md_entities objs"]
  have "filter (\<lambda>r. the_id (objs ! r) = uint (pad_entity_id p)) (md_entities objs) = []" by blast
  then show ?thesis
    by (simp add: MediaPad_finalize_def MediaPad_init_def Let_def)
qed

lemma dangling_link_finalize:
  assumes "wrap_objects ev t = Inr objs"
    and "link_source_id l \<notin> set (snapshot_ids t) \<or> link_sink_id l \<notin> set (snapshot_ids t)"
  shows "finalize objs (Link (MediaLink_init l)) = Inl StopIteration"
proof -
  have sub: "set [0..<length objs] \<subseteq> {..<length objs}" by auto
  from assms(2) show ?thesis
  proof
    assume "link_source_id l \<notin> set (snapshot_ids t)"
    with no_object_with_id[OF assms(1), of "link_source_id l" "[0..<length objs]"] sub
    have "filter (\<lambda>r. the_id (objs ! r) = uint (link_source_id l)) [0..<length objs] = []" by blast
    then show ?thesis
      by (simp add: MediaLink_finalize_def MediaLink_init_def Let_def)
  next
    assume "link_sink_id l \<notin> set (snapshot_ids t)"
    with no_object_with_id[OF assms(1), of "link_sink_id l" "[0..<length objs]"] sub
    have "filter (\<lambda>r. the_id (objs ! r) = uint (link_sink_id l)) [0..<length objs] = []" by blast
    then have snk: "py_next (filter (\<lambda>r. the_id (objs ! r) = uint (link_sink_id l)) [0..<length objs])
                    = Inl StopIteration" by simp
    show ?thesis
    proof (cases "py_next (filter (\<lambda>e. the_id (objs ! e) = uint (link_source_id l)) [0..<length objs])")
      case (Inl err)
      then have "err = StopIteration" by (rule py_next_Inl)
      then show ?thesis using Inl
        by (simp add: MediaLink_finalize_def MediaLink_init_def Let_def)
    next
      case (Inr src)
      then show ?thesis using snk
        by (simp add: MediaLink_finalize_def MediaLink_init_def Let_def)
    qed
  qed
qed


text \<open>
  Claim C1. For every snapshot: if the entity id of some pad, or the source id or the
  sink id of some link, is the id of no record of the snapshot, building the graph
  ends with an exception, so that no list of resolved objects is returned.
\<close>

theorem dangling_reference_aborts:
  assumes "dangling t"
  shows "\<exists>err. build_graph ev t = Inl err"
proof (cases "wrap_objects ev t")
  case (Inl err)
  then show ?thesis by (simp add: build_graph_def)
next
  case (Inr objs)
  have "\<exists>r<length objs. \<exists>err. finalize objs (objs ! r) = Inl err"
    using assms unfolding dangling_def list_ex_iff
  proof
    assume "\<exists>p\<in>set (topo_pads t). pad_entity_id p \<notin> set (snapshot_ids t)"
    then obtain p where p: "p \<in> set (topo_pads t)" "pad_entity_id p \<notin> set (snapshot_ids t)" by blast
    from wrap_objects_pad_mem[OF Inr p(1)] dangling_pad_finalize[OF Inr p(2)]
    show ?thesis by metis
  next
    assume "\<exists>l\<in>set (topo_links t). link_source_id l \<notin> set (snapshot_ids t)
              \<or> link_sink_id l \<notin> set (snapshot_ids t)"
    then obtain l where l: "l \<in> set (topo_links t)"
      "link_source_id l \<notin> set (snapshot_ids t) \<or> link_sink_id l \<notin> set (snapshot_ids t)" by blast
    from wrap_objects_link_mem[OF Inr l(1)] dangling_link_finalize[OF Inr l(2)]
    show ?thesis by metis
  qed
  then obtain r err where "r < length objs" "finalize objs (objs ! r) = Inl err" by blast
  from finalize_all_Inl[OF this] show ?thesis using Inr by (simp add: build_graph_def)
qed

theorem dangling_reference_aborts_witness:
  "dangling dangling_topology \<and> (\<exists>err. build_graph mock_env dangling_topology = Inl err)"
proof -
  have "dangling dangling_topology"
    by (simp add: dangling_def dangling_topology_def snapshot_ids_def)
  then show ?thesis using dangling_reference_aborts[of dangling_topology mock_env] by blast
qed



section \<open>The interface of an entity\<close>



lemma one_interface_wrap: "wrap_objects mock_env one_interface_topology = Inr one_interface_objects"
  by (simp add: wrap_objects_def one_interface_topology_def mock_env_def one_interface_objects_def
      MediaEntity_init_def MediaInterface_init_def filepath_for_major_minor_def
      startswith_def strip_def py_isspace_def
      decode_ascii_def MediaPad_init_def MediaLink_init_def)

lemma two_interface_wrap: "wrap_objects mock_env two_interface_topology = Inr two_interface_objects"
  by (simp add: wrap_objects_def two_interface_topology_def mock_env_def two_interface_objects_def
      MediaEntity_init_def MediaInterface_init_def filepath_for_major_minor_def
      startswith_def strip_def py_isspace_def
      decode_ascii_def MediaPad_init_def MediaLink_init_def)

lemma one_interface_finalize: "finalize_all one_interface_objects = Inr one_interface_graph"
  by (simp add: one_interface_objects_def one_interface_graph_def eval_defs)

lemma one_interface_ifaces:
  "entity_ifaces one_interface_objects (MediaObject_finalize one_interface_objects 1) = [1]"
  by (simp add: one_interface_objects_def eval_defs)

lemma two_interface_ifaces:
  "entity_ifaces two_interface_objects (MediaObject_finalize two_interface_objects 1) = [1, 2]"
  by (simp add: two_interface_objects_def eval_defs)

lemma two_entity_ifaces:
  "entity_ifaces two_entity_objects (MediaObject_finalize two_entity_objects 1) = []"
  by (simp add: two_entity_objects_def eval_defs)

lemma entity_ifaces_mem:
  assumes "i \<in> set (entity_ifaces objs ls)"
  shows "i < length objs \<and> is_Interface (objs ! i)"
  using assms find_id_Some(1)
  by (auto simp: entity_ifaces_def split: option.splits if_splits)

lemma wrap_objects_entity:
  assumes "wrap_objects ev t = Inr objs" and "r < length objs" and "objs ! r = Entity e"
  shows "interface e = None"
proof -
  from assms(1) obtain es ifs where
    o: "objs = map Entity es @ map Interface ifs
            @ map (\<lambda>p. Pad (MediaPad_init p)) (topo_pads t)
            @ map (\<lambda>l. Link (MediaLink_init l)) (topo_links t)"
    and es: "list_all2 (\<lambda>x y. MediaEntity_init ev x = Inr y) (topo_entities t) es"
    by (rule wrap_objects_Inr)
  have "Entity e \<in> set objs" using assms(2,3) by (metis nth_mem)
  then have "e \<in> set es" unfolding o by auto
  then obtain x where "MediaEntity_init ev x = Inr e"
    using es by (auto simp: list_all2_conv_all_nth in_set_conv_nth)
  then show ?thesis by (rule MediaEntity_init_Inr(2))
qed

lemma MediaEntity_finalize_cases:
  "MediaEntity_finalize objs e =
     (let ifaces = entity_ifaces objs (MediaObject_finalize objs (obj_id e));
          e1 = e\<lparr>links := Some (MediaObject_finalize objs (obj_id e)),
                 pads := Some (filter (\<lambda>p. uint (pad_entity_id (media_pad (the_Pad (objs ! p)))) = obj_id e)
                                 (md_pads objs))\<rparr>
      in if 2 \<le> length ifaces then Inl (RuntimeError ''Multiple interfaces for entity'')
         else if ifaces = [] then Inr e1
         else Inr (e1\<lparr>interface := Some (hd ifaces)\<rparr>))"
proof (cases "entity_ifaces objs (MediaObject_finalize objs (obj_id e))")
  case Nil
  then show ?thesis by (simp add: MediaEntity_finalize_def Let_def)
next
  case (Cons a list)
  then show ?thesis
    by (cases list) (simp_all add: MediaEntity_finalize_def Let_def)
qed


text \<open>
  Claim C2. For every entity of the objects built from a snapshot, with \<open>ifaces\<close> the
  interface objects found at the endpoints of the entity's incident links, in the
  order of the scan: with two or more of them the entity's \<^verbatim>\<open>_finalize\<close> raises
  RuntimeError and the resolution of the whole graph fails; with exactly one, it is
  an interface object and becomes the entity's interface, in \<^verbatim>\<open>_finalize\<close> and in
  every resolved graph; with none, \<^verbatim>\<open>_finalize\<close> succeeds for the entity and its
  interface stays None.
\<close>

theorem entity_interface_resolution:
  assumes "wrap_objects ev t = Inr objs" and "r < length objs" and "objs ! r = Entity e"
  shows "(2 \<le> length (entity_ifaces objs (MediaObject_finalize objs (obj_id e))) \<longrightarrow>
            MediaEntity_finalize objs e = Inl (RuntimeError ''Multiple interfaces for entity'')
            \<and> (\<exists>err. finalize_all objs = Inl err))
       \<and> (\<forall>i. entity_ifaces objs (MediaObject_finalize objs (obj_id e)) = [i] \<longrightarrow>
            is_Interface (objs ! i)
            \<and> (\<exists>e'. MediaEntity_finalize objs e = Inr e' \<and> interface e' = Some i)
            \<and> (\<forall>g. finalize_all objs = Inr g \<longrightarrow> (\<exists>e'. g ! r = Entity e' \<and> interface e' = Some i)))
       \<and> (entity_ifaces objs (MediaObject_finalize objs (obj_id e)) = [] \<longrightarrow>
            (\<exists>e'. MediaEntity_finalize objs e = Inr e' \<and> interface e' = None)
            \<and> (\<forall>g. finalize_all objs = Inr g \<longrightarrow> (\<exists>e'. g ! r = Entity e' \<and> interface e' = None)))"
proof -
  let ?ifaces = "entity_ifaces objs (MediaObject_finalize objs (obj_id e))"
  have none: "interface e = None" by (rule wrap_objects_entity[OF assms])
  have many: "MediaEntity_finalize objs e = Inl (RuntimeError ''Multiple interfaces for entity'')
              \<and> (\<exists>err. finalize_all objs = Inl err)" if "2 \<le> length ?ifaces"
  proof -
    have f: "MediaEntity_finalize objs e = Inl (RuntimeError ''Multiple interfaces for entity'')"
      using that by (simp add: MediaEntity_finalize_cases Let_def)
    then have "finalize objs (objs ! r) = Inl (RuntimeError ''Multiple interfaces for entity'')"
      using assms(3) by simp
    from finalize_all_Inl[OF assms(2) this] f show ?thesis by simp
  qed
  have graph: "\<exists>e''. g ! r = Entity e'' \<and> interface e'' = interface e'"
    if "MediaEntity_finalize objs e = Inr e'" and "finalize_all objs = Inr g" for e' g
  proof -
    have "finalize objs (objs ! r) = Inr (Entity e')" using that(1) assms(3) by simp
    with finalize_all_Inr(3)[OF that(2) assms(2)] have "g ! r = Entity e'" by simp
    then show ?thesis by simp
  qed
  have one: "is_Interface (objs ! i)
            \<and> (\<exists>e'. MediaEntity_finalize objs e = Inr e' \<and> interface e' = Some i)
            \<and> (\<forall>g. finalize_all objs = Inr g \<longrightarrow> (\<exists>e'. g ! r = Entity e' \<and> interface e' = Some i))"
    if h: "?ifaces = [i]" for i
  proof -
    have "i \<in> set ?ifaces" using h by simp
    then have 1: "is_Interface (objs ! i)" using entity_ifaces_mem by blast
    obtain e' where 2: "MediaEntity_finalize objs e = Inr e'" "interface e' = Some i"
      using h by (simp add: MediaEntity_finalize_cases Let_def)
    show ?thesis using 1 2 graph[OF 2(1)] by metis
  qed
  have zero: "(\<exists>e'. MediaEntity_finalize objs e = Inr e' \<and> interface e' = None)
            \<and> (\<forall>g. finalize_all objs = Inr g \<longrightarrow> (\<exists>e'. g ! r = Entity e' \<and> interface e' = None))"
    if h: "?ifaces = []"
  proof -
    obtain e' where 2: "MediaEntity_finalize objs e = Inr e'" "interface e' = None"
      using h none by (simp add: MediaEntity_finalize_cases Let_def)
    show ?thesis using 2 graph[OF 2(1)] by metis
  qed
  show ?thesis using many one zero by blast
qed

theorem entity_interface_resolution_witness:
  "wrap_objects mock_env two_interface_topology = Inr two_interface_objects
   \<and> 2 \<le> length (entity_ifaces two_interface_objects (MediaObject_finalize two_interface_objects 1))
   \<and> (\<exists>err. finalize_all two_interface_objects = Inl err)
   \<and> wrap_objects mock_env one_interface_topology = Inr one_interface_objects
   \<and> entity_ifaces one_interface_objects (MediaObject_finalize one_interface_objects 1) = [1]
   \<and> finalize_all one_interface_objects = Inr one_interface_graph
   \<and> (\<exists>e'. one_interface_graph ! 0 = Entity e' \<and> interface e' = Some 1)
   \<and> wrap_objects mock_env two_entity_topology = Inr two_entity_objects
   \<and> entity_ifaces two_entity_objects (MediaObject_finalize two_entity_objects 1) = []
   \<and> finalize_all two_entity_objects = Inr two_entity_graph
   \<and> (\<exists>e'. two_entity_graph ! 0 = Entity e' \<and> interface e' = None)"
proof -
  have a: "0 < length two_interface_objects"
    "two_interface_objects ! 0 = Entity (the_Entity (two_interface_objects ! 0))"
    "obj_id (the_Entity (two_interface_objects ! 0)) = 1"
    by (simp_all add: two_interface_objects_def)
  have b: "0 < length one_interface_objects"
    "one_interface_objects ! 0 = Entity (the_Entity (one_interface_objects ! 0))"
    "obj_id (the_Entity (one_interface_objects ! 0)) = 1"
    by (simp_all add: one_interface_objects_def)
  have c: "0 < length two_entity_objects"
    "two_entity_objects ! 0 = Entity (the_Entity (two_entity_objects ! 0))"
    "obj_id (the_Entity (two_entity_objects ! 0)) = 1"
    by (simp_all add: two_entity_objects_def)
  have a2: "2 \<le> length (entity_ifaces two_interface_objects (MediaObject_finalize two_interface_objects 1))"
    by (simp add: two_interface_ifaces)
  show ?thesis
    using entity_interface_resolution[OF two_interface_wrap a(1,2)]
      entity_interface_resolution[OF one_interface_wrap b(1,2)]
      entity_interface_resolution[OF two_entity_wrap c(1,2)]
      a(3) b(3) c(3) a2 one_interface_ifaces two_entity_ifaces
      two_interface_wrap one_interface_wrap two_entity_wrap
      one_interface_finalize two_entity_finalize
    by simp
qed



section \<open>The scenario of two entities joined by one link\<close>


lemma uint_eq_iff: "uint (a :: 'a::len word) = uint b \<longleftrightarrow> a = b"
  by (simp add: word_uint_eq_iff)


text \<open>
  Claim C8. A snapshot of exactly two entities, two pads of which the first belongs to
  the first entity and the second to the second, one link from the first pad to the
  second and no interface, with the four ids of the entities and pads distinct (ids
  are unique within a snapshot) and with entity records that the constructor accepts
  (ASCII names, function values of the enumeration). The graph is built, its objects
  are the two entities, the two pads and the link in this order (positions 0 to 4),
  the link's source pad is the first pad and that pad's entity is the first entity,
  the link's sink pad is the second pad and that pad's entity is the second entity,
  and \<^verbatim>\<open>pad_links\<close> of either entity is the list with just the link. The flags of
  the pads play no part.
\<close>

theorem two_entity_scenario:
  assumes t: "topo_entities t = [e0, e1]" "topo_interfaces t = []"
             "topo_pads t = [p0, p1]" "topo_links t = [l]"
    and own: "pad_entity_id p0 = ent_id e0" "pad_entity_id p1 = ent_id e1"
    and ends: "link_source_id l = pad_id p0" "link_sink_id l = pad_id p1"
    and ids: "distinct [ent_id e0, ent_id e1, pad_id p0, pad_id p1]"
    and ascii: "list_all (\<lambda>c. (of_char c :: nat) < 128) (ent_name e0)"
               "list_all (\<lambda>c. (of_char c :: nat) < 128) (ent_name e1)"
    and funs: "MediaEntityFunction_member ev (uint (ent_function e0))"
              "MediaEntityFunction_member ev (uint (ent_function e1))"
  shows "\<exists>g en0 en1 sp kp lk.
           build_graph ev t = Inr g \<and> g = [Entity en0, Entity en1, Pad sp, Pad kp, Link lk]
           \<and> media_entity en0 = e0 \<and> media_entity en1 = e1
           \<and> media_pad sp = p0 \<and> media_pad kp = p1 \<and> media_link lk = l
           \<and> source_pad g lk = Inr 2 \<and> entity sp = Some 0
           \<and> sink_pad g lk = Inr 3 \<and> entity kp = Some 1
           \<and> pad_links g en0 = Inr [4] \<and> pad_links g en1 = Inr [4]"
proof -
  define E0 where "E0 = \<lparr>obj_id = uint (ent_id e0), links = None, media_entity = e0, name = ent_name e0,
                    entity_function = uint (ent_function e0), entity_flags = uint (ent_flags e0),
                    pads = None, interface = None\<rparr>"
  define E1 where "E1 = \<lparr>obj_id = uint (ent_id e1), links = None, media_entity = e1, name = ent_name e1,
                    entity_function = uint (ent_function e1), entity_flags = uint (ent_flags e1),
                    pads = None, interface = None\<rparr>"
  define objs where "objs = [Entity E0, Entity E1, Pad (MediaPad_init p0), Pad (MediaPad_init p1),
                             Link (MediaLink_init l)]"
  have w: "wrap_objects ev t = Inr objs"
    using ascii funs
    by (simp add: wrap_objects_def t MediaEntity_init_def decode_ascii_def objs_def E0_def E1_def)
  from ids have ne: "ent_id e0 \<noteq> ent_id e1" "ent_id e0 \<noteq> pad_id p0" "ent_id e0 \<noteq> pad_id p1"
    "ent_id e1 \<noteq> pad_id p0" "ent_id e1 \<noteq> pad_id p1" "pad_id p0 \<noteq> pad_id p1"
    "ent_id e1 \<noteq> ent_id e0" "pad_id p0 \<noteq> ent_id e0" "pad_id p1 \<noteq> ent_id e0"
    "pad_id p0 \<noteq> ent_id e1" "pad_id p1 \<noteq> ent_id e1" "pad_id p1 \<noteq> pad_id p0"
    by auto
  define g where "g = [Entity (E0\<lparr>links := Some [], pads := Some [2]\<rparr>),
                       Entity (E1\<lparr>links := Some [], pads := Some [3]\<rparr>),
                       Pad ((MediaPad_init p0)\<lparr>links := Some [4], entity := Some 0\<rparr>),
                       Pad ((MediaPad_init p1)\<lparr>links := Some [4], entity := Some 1\<rparr>),
                       Link ((MediaLink_init l)\<lparr>links := Some (if link_id l = pad_id p0 \<or> link_id l = pad_id p1 then [4] else []),
                              source := Some 2, sink := Some 3\<rparr>)]"
  have f: "finalize_all objs = Inr g"
    unfolding objs_def g_def E0_def E1_def
    by (simp add: eval_defs own ends ne uint_eq_iff)
  have b: "build_graph ev t = Inr g" by (simp add: build_graph_def w f)
  have sp: "source_pad g (the_Link (g ! 4)) = Inr 2" "sink_pad g (the_Link (g ! 4)) = Inr 3"
    by (simp_all add: g_def source_pad_def sink_pad_def deref_def)
  have pl: "pad_links g (the_Entity (g ! 0)) = Inr [4]" "pad_links g (the_Entity (g ! 1)) = Inr [4]"
    by (simp_all add: g_def pad_links_def pad_links_of_def deref_def E0_def E1_def)
  have raw: "media_entity (the_Entity (g ! 0)) = e0" "media_entity (the_Entity (g ! 1)) = e1"
    "media_pad (the_Pad (g ! 2)) = p0" "media_pad (the_Pad (g ! 3)) = p1"
    "media_link (the_Link (g ! 4)) = l"
    "entity (the_Pad (g ! 2)) = Some 0" "entity (the_Pad (g ! 3)) = Some 1"
    by (simp_all add: g_def E0_def E1_def MediaPad_init_def MediaLink_init_def)
  have shape: "g = [Entity (the_Entity (g ! 0)), Entity (the_Entity (g ! 1)), Pad (the_Pad (g ! 2)),
                    Pad (the_Pad (g ! 3)), Link (the_Link (g ! 4))]"
    by (simp add: g_def)
  show ?thesis
    using b sp pl raw shape by blast
qed


theorem two_entity_scenario_witness:
  "distinct [ent_id (topo_entities two_entity_topology ! 0), ent_id (topo_entities two_entity_topology ! 1),
             pad_id (topo_pads two_entity_topology ! 0), pad_id (topo_pads two_entity_topology ! 1)]
   \<and> (\<exists>g en0 en1 sp kp lk.
           build_graph mock_env two_entity_topology = Inr g
           \<and> g = [Entity en0, Entity en1, Pad sp, Pad kp, Link lk]
           \<and> media_entity en0 = topo_entities two_entity_topology ! 0
           \<and> media_entity en1 = topo_entities two_entity_topology ! 1
           \<and> media_pad sp = topo_pads two_entity_topology ! 0
           \<and> media_pad kp = topo_pads two_entity_topology ! 1
           \<and> media_link lk = topo_links two_entity_topology ! 0
           \<and> source_pad g lk = Inr 2 \<and> entity sp = Some 0
           \<and> sink_pad g lk = Inr 3 \<and> entity kp = Some 1
           \<and> pad_links g en0 = Inr [4] \<and> pad_links g en1 = Inr [4])"
proof -
  let ?t = two_entity_topology
  have t: "topo_entities ?t = [topo_entities ?t ! 0, topo_entities ?t ! 1]" "topo_interfaces ?t = []"
    "topo_pads ?t = [topo_pads ?t ! 0, topo_pads ?t ! 1]" "topo_links ?t = [topo_links ?t ! 0]"
    by (simp_all add: two_entity_topology_def)
  have own: "pad_entity_id (topo_pads ?t ! 0) = ent_id (topo_entities ?t ! 0)"
    "pad_entity_id (topo_pads ?t ! 1) = ent_id (topo_entities ?t ! 1)"
    by (simp_all add: two_entity_topology_def)
  have ends: "link_source_id (topo_links ?t ! 0) = pad_id (topo_pads ?t ! 0)"
    "link_sink_id (topo_links ?t ! 0) = pad_id (topo_pads ?t ! 1)"
    by (simp_all add: two_entity_topology_def)
  have ids: "distinct [ent_id (topo_entities ?t ! 0), ent_id (topo_entities ?t ! 1),
                       pad_id (topo_pads ?t ! 0), pad_id (topo_pads ?t ! 1)]"
    by (simp add: two_entity_topology_def)
  have ascii: "list_all (\<lambda>c. (of_char c :: nat) < 128) (ent_name (topo_entities ?t ! 0))"
    "list_all (\<lambda>c. (of_char c :: nat) < 128) (ent_name (topo_entities ?t ! 1))"
    by (simp_all add: two_entity_topology_def)
  have funs: "MediaEntityFunction_member mock_env (uint (ent_function (topo_entities ?t ! 0)))"
    "MediaEntityFunction_member mock_env (uint (ent_function (topo_entities ?t ! 1)))"
    by (simp_all add: mock_env_def)
  show ?thesis
    using two_entity_scenario[OF t own ends ids ascii funs] ids by blast
qed



section \<open>The link controller on resolved graphs\<close>


lemma resolved_nth:
  "resolved objs \<Longrightarrow> r < length objs \<Longrightarrow> resolved_object objs (objs ! r)"
  by (simp add: resolved_def list_all_length)

lemma finalize_Inr_Link:
  "finalize objs x = Inr (Link lk) \<Longrightarrow> \<exists>lk0. x = Link lk0 \<and> MediaLink_finalize objs lk0 = Inr lk"
  by (cases x) (auto simp: map_sum_Inr_iff)

lemma finalize_all_resolved:
  assumes "finalize_all objs = Inr g"
  shows "resolved g"
  unfolding resolved_def list_all_length
proof (intro allI impI)
  fix r assume r: "r < length g"
  note fin = finalize_all_Inr[OF assms]
  have rlt: "r < length objs" using r fin(1) by simp
  note fr = fin(3)[OF rlt]
  show "resolved_object g (g ! r)"
  proof (cases "g ! r")
    case (Entity e)
    then show ?thesis by (simp add: resolved_object_def)
  next
    case (Interface i)
    then show ?thesis by (simp add: resolved_object_def)
  next
    case (Pad pd)
    with fr obtain pd0 where pf: "MediaPad_finalize objs pd0 = Inr pd"
      using finalize_Inr_Pad by metis
    then obtain e where nx: "py_next (filter (\<lambda>e. the_id (objs ! e) = uint (pad_entity_id (media_pad pd0)))
                         (md_entities objs)) = Inr e" and ent: "entity pd = Some e"
      by (auto simp: MediaPad_finalize_def Let_def split: sum.splits)
    from py_next_Inr_mem[OF nx] have elt: "e < length objs" and ise: "is_Entity (objs ! e)"
      by (auto simp: md_entities_mem)
    have "is_Entity (g ! e)"
      using same_unresolved_is(1)[OF fin(2), of e] elt fin(1) ise by simp
    then show ?thesis using Pad ent elt fin(1) by (simp add: resolved_object_def)
  next
    case (Link lk)
    with fr obtain lk0 where lf: "MediaLink_finalize objs lk0 = Inr lk"
      using finalize_Inr_Link by metis
    then obtain s k where
      s: "py_next (filter (\<lambda>e. the_id (objs ! e) = uint (link_source_id (media_link lk0))) [0..<length objs]) = Inr s"
      and k: "py_next (filter (\<lambda>e. the_id (objs ! e) = uint (link_sink_id (media_link lk0))) [0..<length objs]) = Inr k"
      and sk: "source lk = Some s" "sink lk = Some k"
      by (auto simp: MediaLink_finalize_def Let_def split: sum.splits)
    from py_next_Inr_mem[OF s] py_next_Inr_mem[OF k] have "s < length objs" "k < length objs" by auto
    then show ?thesis using Link sk fin(1) by (simp add: resolved_object_def)
  qed
qed

lemma resolved_pad:
  assumes "resolved objs" and "p < length objs" and "is_Pad (objs ! p)"
  shows "\<exists>pd e en. objs ! p = Pad pd \<and> entity pd = Some e \<and> e < length objs \<and> objs ! e = Entity en"
proof -
  from assms(3) obtain pd where pd: "objs ! p = Pad pd" by (cases "objs ! p") auto
  from resolved_nth[OF assms(1,2)] pd obtain e where "entity pd = Some e" "e < length objs" "is_Entity (objs ! e)"
    by (auto simp: resolved_object_def split: option.splits)
  then show ?thesis using pd by (cases "objs ! e") auto
qed

lemma resolved_link:
  assumes "resolved objs" and "deref objs l = Some (Link self)"
  shows "\<exists>s k. source self = Some s \<and> s < length objs \<and> sink self = Some k \<and> k < length objs"
proof -
  from assms(2) have l: "l < length objs" "objs ! l = Link self"
    by (auto simp: deref_def split: if_splits)
  from resolved_nth[OF assms(1) l(1)] l(2) show ?thesis
    by (auto simp: resolved_object_def split: option.splits)
qed

lemma pad_reads:
  assumes "resolved objs" and "p < length objs" and "is_Pad (objs ! p)"
  shows "\<exists>i. pad_entity_id_of objs p = Inr i" and "\<exists>i. pad_index_of objs p = Inr i"
  using resolved_pad[OF assms] assms(2)
  by (auto simp: pad_entity_id_of_def pad_index_of_def deref_def)

lemma link_desc_pads:
  assumes "resolved objs" and "deref objs l = Some (Link self)"
    and "source self = Some sp" and "is_Pad (objs ! sp)"
    and "sink self = Some kp" and "is_Pad (objs ! kp)"
  shows "\<exists>desc. link_desc objs self flgs = Inr desc \<and> desc_flags desc = word_of_int flgs
           \<and> (\<forall>flgs'. link_desc objs self flgs' = Inr (desc\<lparr>desc_flags := word_of_int flgs'\<rparr>))"
proof -
  from resolved_link[OF assms(1,2)] assms(3,5) have lt: "sp < length objs" "kp < length objs" by auto
  have sp: "source_pad objs self = Inr sp" using assms(3,4) lt by (simp add: source_pad_def deref_def)
  have kp: "sink_pad objs self = Inr kp" using assms(5,6) lt by (simp add: sink_pad_def deref_def)
  from pad_reads[OF assms(1) lt(1) assms(4)] obtain se si where
    s: "pad_entity_id_of objs sp = Inr se" "pad_index_of objs sp = Inr si" by blast
  from pad_reads[OF assms(1) lt(2) assms(6)] obtain ke ki where
    k: "pad_entity_id_of objs kp = Inr ke" "pad_index_of objs kp = Inr ki" by blast
  show ?thesis by (simp add: link_desc_def sp kp s k)
qed


lemma setup_pads:
  assumes "resolved (objects md)" and "deref (objects md) l = Some (Link self)"
    and "source self = Some sp" and "is_Pad (objects md ! sp)"
    and "sink self = Some kp" and "is_Pad (objects md ! kp)"
  shows "\<exists>desc. link_desc (objects md) self flgs = Inr desc \<and> desc_flags desc = word_of_int flgs
           \<and> (\<forall>flgs'. link_desc (objects md) self flgs' = Inr (desc\<lparr>desc_flags := word_of_int flgs'\<rparr>))
           \<and> MediaLink_setup k md l flgs w =
               (case setup_link_result k (calls w) (fd md) desc of
                  None \<Rightarrow> (None, md\<lparr>objects := (objects md)[l := Link (self\<lparr>flags := flgs\<rparr>)]\<rparr>,
                            w\<lparr>calls := calls w @ [ioctl_SETUP_LINK (fd md) desc]\<rparr>)
                | Some en \<Rightarrow> (Some (OSError en), md,
                              w\<lparr>calls := calls w @ [ioctl_SETUP_LINK (fd md) desc]\<rparr>))"
proof -
  from link_desc_pads[OF assms, of flgs] obtain desc where
    d: "link_desc (objects md) self flgs = Inr desc" "desc_flags desc = word_of_int flgs"
       "\<forall>flgs'. link_desc (objects md) self flgs' = Inr (desc\<lparr>desc_flags := word_of_int flgs'\<rparr>)"
    by blast
  have "MediaLink_setup k md l flgs w =
               (case setup_link_result k (calls w) (fd md) desc of
                  None \<Rightarrow> (None, md\<lparr>objects := (objects md)[l := Link (self\<lparr>flags := flgs\<rparr>)]\<rparr>,
                            w\<lparr>calls := calls w @ [ioctl_SETUP_LINK (fd md) desc]\<rparr>)
                | Some en \<Rightarrow> (Some (OSError en), md,
                              w\<lparr>calls := calls w @ [ioctl_SETUP_LINK (fd md) desc]\<rparr>))"
    by (simp add: MediaLink_setup_def assms(2) d(1) sys_ioctl_setup_link_def split: option.splits)
  with d show ?thesis by blast
qed

lemmas setup_eval_defs = enable_def disable_def enable_then_disable_def MediaLink_setup_def
  link_desc_def source_pad_def sink_pad_def pad_entity_id_of_def pad_index_of_def deref_def
  sys_ioctl_setup_link_def mock_device_def interface_device_def mock_kernel_def busy_kernel_def
  mock_env_def mock_world_def two_entity_graph_def one_interface_graph_def

lemma two_entity_graph_resolved: "resolved (objects mock_device)"
  by (simp add: resolved_def resolved_object_def mock_device_def two_entity_graph_def)

lemma one_interface_graph_resolved: "resolved (objects interface_device)"
  by (simp add: resolved_def resolved_object_def interface_device_def one_interface_graph_def)

lemma mock_device_link:
  "deref (objects mock_device) 4 = Some (Link (the_Link (two_entity_graph ! 4)))"
  "source (the_Link (two_entity_graph ! 4)) = Some 2" "is_Pad (objects mock_device ! 2)"
  "sink (the_Link (two_entity_graph ! 4)) = Some 3" "is_Pad (objects mock_device ! 3)"
  "flags (the_Link (two_entity_graph ! 4)) = 1"
  by (simp_all add: mock_device_def two_entity_graph_def deref_def)

lemma interface_device_link:
  "deref (objects interface_device) 2 = Some (Link (the_Link (one_interface_graph ! 2)))"
  "source (the_Link (one_interface_graph ! 2)) = Some 1" "\<not> is_Pad (objects interface_device ! 1)"
  "sink (the_Link (one_interface_graph ! 2)) = Some 0" "\<not> is_Pad (objects interface_device ! 0)"
  by (simp_all add: interface_device_def one_interface_graph_def deref_def)


text \<open>
  Claim C4. For a link of a resolved graph whose source and sink are both pads, and
  for either request (enable: the flag word \<^verbatim>\<open>MEDIA_LNK_FL_ENABLED\<close>; disable: the
  flag word 0): the descriptor is built without an exception, exactly one call is
  added to the calls issued, the setup-link ioctl with that descriptor, whose flags
  are the requested word; when the kernel accepts the call, nothing is raised and
  the device is as before except that the link's flags are the requested word; when
  the kernel answers with an errno, OSError with that errno is raised and the device
  is unchanged.
\<close>

theorem set_link_enabled_pad_to_pad:
  assumes "resolved (objects md)" and "deref (objects md) l = Some (Link self)"
    and "source self = Some sp" and "is_Pad (objects md ! sp)"
    and "sink self = Some kp" and "is_Pad (objects md ! kp)"
  shows "let flgs = (if enabled then MEDIA_LNK_FL_ENABLED ev else 0);
             r = (if enabled then enable ev k md l w else disable k md l w)
         in \<exists>desc. link_desc (objects md) self flgs = Inr desc
              \<and> desc_flags desc = word_of_int flgs
              \<and> snd (snd r) = w\<lparr>calls := calls w @ [ioctl_SETUP_LINK (fd md) desc]\<rparr>
              \<and> (setup_link_result k (calls w) (fd md) desc = None \<longrightarrow>
                    fst r = None
                    \<and> fst (snd r) = md\<lparr>objects := (objects md)[l := Link (self\<lparr>flags := flgs\<rparr>)]\<rparr>)
              \<and> (\<forall>en. setup_link_result k (calls w) (fd md) desc = Some en \<longrightarrow>
                    fst r = Some (OSError en) \<and> fst (snd r) = md)"
proof -
  define flgs where "flgs = (if enabled then MEDIA_LNK_FL_ENABLED ev else 0)"
  have r: "(if enabled then enable ev k md l w else disable k md l w) = MediaLink_setup k md l flgs w"
    by (simp add: flgs_def enable_def disable_def)
  from setup_pads[OF assms, of flgs k w] obtain desc where
    d: "link_desc (objects md) self flgs = Inr desc" "desc_flags desc = word_of_int flgs"
    and s: "MediaLink_setup k md l flgs w =
               (case setup_link_result k (calls w) (fd md) desc of
                  None \<Rightarrow> (None, md\<lparr>objects := (objects md)[l := Link (self\<lparr>flags := flgs\<rparr>)]\<rparr>,
                            w\<lparr>calls := calls w @ [ioctl_SETUP_LINK (fd md) desc]\<rparr>)
                | Some en \<Rightarrow> (Some (OSError en), md,
                              w\<lparr>calls := calls w @ [ioctl_SETUP_LINK (fd md) desc]\<rparr>))"
    by blast
  have a: "snd (snd (MediaLink_setup k md l flgs w)) = w\<lparr>calls := calls w @ [ioctl_SETUP_LINK (fd md) desc]\<rparr>"
    by (simp add: s split: option.splits)
  have b: "setup_link_result k (calls w) (fd md) desc = None \<longrightarrow>
                    fst (MediaLink_setup k md l flgs w) = None
                    \<and> fst (snd (MediaLink_setup k md l flgs w))
                        = md\<lparr>objects := (objects md)[l := Link (self\<lparr>flags := flgs\<rparr>)]\<rparr>"
    by (simp add: s)
  have c: "\<forall>en. setup_link_result k (calls w) (fd md) desc = Some en \<longrightarrow>
                    fst (MediaLink_setup k md l flgs w) = Some (OSError en)
                    \<and> fst (snd (MediaLink_setup k md l flgs w)) = md"
    by (simp add: s)
  show ?thesis
    unfolding Let_def r flgs_def[symmetric]
  proof (intro exI conjI)
    show "link_desc (objects md) self flgs = Inr desc" by (rule d(1))
    show "desc_flags desc = word_of_int flgs" by (rule d(2))
    show "snd (snd (MediaLink_setup k md l flgs w)) = w\<lparr>calls := calls w @ [ioctl_SETUP_LINK (fd md) desc]\<rparr>"
      by (rule a)
    show "setup_link_result k (calls w) (fd md) desc = None \<longrightarrow>
                    fst (MediaLink_setup k md l flgs w) = None
                    \<and> fst (snd (MediaLink_setup k md l flgs w))
                        = md\<lparr>objects := (objects md)[l := Link (self\<lparr>flags := flgs\<rparr>)]\<rparr>"
      by (rule b)
    show "\<forall>en. setup_link_result k (calls w) (fd md) desc = Some en \<longrightarrow>
                    fst (MediaLink_setup k md l flgs w) = Some (OSError en)
                    \<and> fst (snd (MediaLink_setup k md l flgs w)) = md"
      by (rule c)
  qed
qed


theorem set_link_enabled_pad_to_pad_witness:
  "resolved (objects mock_device)
   \<and> deref (objects mock_device) 4 = Some (Link (the_Link (two_entity_graph ! 4)))
   \<and> source (the_Link (two_entity_graph ! 4)) = Some 2 \<and> is_Pad (objects mock_device ! 2)
   \<and> sink (the_Link (two_entity_graph ! 4)) = Some 3 \<and> is_Pad (objects mock_device ! 3)
   \<and> (\<exists>desc. link_desc (objects mock_device) (the_Link (two_entity_graph ! 4)) 0 = Inr desc
         \<and> setup_link_result mock_kernel (calls mock_world) (fd mock_device) desc = None
         \<and> disable mock_kernel mock_device 4 mock_world
             = (None, mock_device\<lparr>objects := (objects mock_device)
                                        [4 := Link ((the_Link (two_entity_graph ! 4))\<lparr>flags := 0\<rparr>)]\<rparr>,
                mock_world\<lparr>calls := calls mock_world @ [ioctl_SETUP_LINK (fd mock_device) desc]\<rparr>))
   \<and> (\<exists>desc. link_desc (objects mock_device) (the_Link (two_entity_graph ! 4)) 1 = Inr desc
         \<and> setup_link_result busy_kernel (calls mock_world) (fd mock_device) desc = Some 16
         \<and> enable mock_env busy_kernel mock_device 4 mock_world
             = (Some (OSError 16), mock_device,
                mock_world\<lparr>calls := calls mock_world @ [ioctl_SETUP_LINK (fd mock_device) desc]\<rparr>))"
proof -
  note h = two_entity_graph_resolved mock_device_link(1-5)
  have en: "MEDIA_LNK_FL_ENABLED mock_env = 1" by (simp add: mock_env_def)
  have ok: "setup_link_result mock_kernel c d x = None" for c d x by (simp add: mock_kernel_def)
  have busy: "setup_link_result busy_kernel c d x = Some 16" for c d x
    by (simp add: busy_kernel_def mock_kernel_def)
  from set_link_enabled_pad_to_pad[OF h, of False mock_env mock_kernel mock_world]
  have 1: "\<exists>desc. link_desc (objects mock_device) (the_Link (two_entity_graph ! 4)) 0 = Inr desc
         \<and> setup_link_result mock_kernel (calls mock_world) (fd mock_device) desc = None
         \<and> disable mock_kernel mock_device 4 mock_world
             = (None, mock_device\<lparr>objects := (objects mock_device)
                                        [4 := Link ((the_Link (two_entity_graph ! 4))\<lparr>flags := 0\<rparr>)]\<rparr>,
                mock_world\<lparr>calls := calls mock_world @ [ioctl_SETUP_LINK (fd mock_device) desc]\<rparr>)"
    by (auto simp: ok prod_eq_iff Let_def)
  from set_link_enabled_pad_to_pad[OF h, of True mock_env busy_kernel mock_world]
  have 2: "\<exists>desc. link_desc (objects mock_device) (the_Link (two_entity_graph ! 4)) 1 = Inr desc
         \<and> setup_link_result busy_kernel (calls mock_world) (fd mock_device) desc = Some 16
         \<and> enable mock_env busy_kernel mock_device 4 mock_world
             = (Some (OSError 16), mock_device,
                mock_world\<lparr>calls := calls mock_world @ [ioctl_SETUP_LINK (fd mock_device) desc]\<rparr>)"
    by (auto simp: busy en prod_eq_iff Let_def)
  show ?thesis using h 1 2 by blast
qed

lemma source_not_pad:
  assumes "resolved objs" and "deref objs l = Some (Link self)"
    and "\<forall>r. source self = Some r \<longrightarrow> \<not> is_Pad (objs ! r)"
  shows "source_pad objs self = Inl (RuntimeError ''Source is not a MediaPad'')"
  using resolved_link[OF assms(1,2)] assms(3)
  by (auto simp: source_pad_def deref_def)

lemma sink_not_pad:
  assumes "resolved objs" and "deref objs l = Some (Link self)"
    and "\<forall>r. sink self = Some r \<longrightarrow> \<not> is_Pad (objs ! r)"
  shows "sink_pad objs self = Inl (RuntimeError ''Sink is not a MediaPad'')"
  using resolved_link[OF assms(1,2)] assms(3)
  by (auto simp: sink_pad_def deref_def)

lemma setup_source_not_pad:
  assumes "resolved (objects md)" and "deref (objects md) l = Some (Link self)"
    and "\<forall>r. source self = Some r \<longrightarrow> \<not> is_Pad (objects md ! r)"
  shows "MediaLink_setup k md l flgs w = (Some (RuntimeError ''Source is not a MediaPad''), md, w)"
  by (simp add: MediaLink_setup_def assms(2) link_desc_def source_not_pad[OF assms])

lemma setup_sink_not_pad:
  assumes "resolved (objects md)" and "deref (objects md) l = Some (Link self)"
    and "\<forall>r. sink self = Some r \<longrightarrow> \<not> is_Pad (objects md ! r)"
  shows "MediaLink_setup k md l flgs w = (Some (RuntimeError ''Source is not a MediaPad''), md, w)
       \<or> MediaLink_setup k md l flgs w = (Some (RuntimeError ''Sink is not a MediaPad''), md, w)"
proof (cases "\<forall>r. source self = Some r \<longrightarrow> \<not> is_Pad (objects md ! r)")
  case True
  from setup_source_not_pad[OF assms(1,2) True] show ?thesis by simp
next
  case False
  then obtain sp where sp: "source self = Some sp" "is_Pad (objects md ! sp)" by blast
  from resolved_link[OF assms(1,2)] sp(1) have lt: "sp < length (objects md)" by auto
  have s: "source_pad (objects md) self = Inr sp"
    using sp lt by (simp add: source_pad_def deref_def)
  from pad_reads[OF assms(1) lt sp(2)] obtain se si where
    r: "pad_entity_id_of (objects md) sp = Inr se" "pad_index_of (objects md) sp = Inr si" by blast
  have "MediaLink_setup k md l flgs w = (Some (RuntimeError ''Sink is not a MediaPad''), md, w)"
    by (simp add: MediaLink_setup_def assms(2) link_desc_def s r sink_not_pad[OF assms])
  then show ?thesis by simp
qed


text \<open>
  Claim C5. For a link of a resolved graph: when its source is not a pad,
  \<^verbatim>\<open>source_pad\<close> raises RuntimeError, and \<^verbatim>\<open>enable\<close> and \<^verbatim>\<open>disable\<close> raise that
  error and leave the device and the world, hence the calls issued, as they were;
  when its sink is not a pad, \<^verbatim>\<open>sink_pad\<close> raises RuntimeError, and \<^verbatim>\<open>enable\<close>
  and \<^verbatim>\<open>disable\<close> raise the error of the source accessor or that of the sink
  accessor and leave the device and the world as they were.
\<close>

theorem not_pad_type_mismatch:
  assumes "resolved (objects md)" and "deref (objects md) l = Some (Link self)"
  shows "((\<forall>r. source self = Some r \<longrightarrow> \<not> is_Pad (objects md ! r)) \<longrightarrow>
            source_pad (objects md) self = Inl (RuntimeError ''Source is not a MediaPad'')
            \<and> enable ev k md l w = (Some (RuntimeError ''Source is not a MediaPad''), md, w)
            \<and> disable k md l w = (Some (RuntimeError ''Source is not a MediaPad''), md, w))
       \<and> ((\<forall>r. sink self = Some r \<longrightarrow> \<not> is_Pad (objects md ! r)) \<longrightarrow>
            sink_pad (objects md) self = Inl (RuntimeError ''Sink is not a MediaPad'')
            \<and> (enable ev k md l w = (Some (RuntimeError ''Source is not a MediaPad''), md, w)
               \<or> enable ev k md l w = (Some (RuntimeError ''Sink is not a MediaPad''), md, w))
            \<and> (disable k md l w = (Some (RuntimeError ''Source is not a MediaPad''), md, w)
               \<or> disable k md l w = (Some (RuntimeError ''Sink is not a MediaPad''), md, w)))"
  unfolding enable_def disable_def
  using source_not_pad[OF assms] sink_not_pad[OF assms]
    setup_source_not_pad[OF assms] setup_sink_not_pad[OF assms]
  by blast

theorem not_pad_type_mismatch_witness:
  "resolved (objects interface_device)
   \<and> deref (objects interface_device) 2 = Some (Link (the_Link (one_interface_graph ! 2)))
   \<and> source (the_Link (one_interface_graph ! 2)) = Some 1 \<and> \<not> is_Pad (objects interface_device ! 1)
   \<and> sink (the_Link (one_interface_graph ! 2)) = Some 0 \<and> \<not> is_Pad (objects interface_device ! 0)
   \<and> source_pad (objects interface_device) (the_Link (one_interface_graph ! 2))
       = Inl (RuntimeError ''Source is not a MediaPad'')
   \<and> sink_pad (objects interface_device) (the_Link (one_interface_graph ! 2))
       = Inl (RuntimeError ''Sink is not a MediaPad'')
   \<and> enable mock_env mock_kernel interface_device 2 mock_world
       = (Some (RuntimeError ''Source is not a MediaPad''), interface_device, mock_world)
   \<and> disable mock_kernel interface_device 2 mock_world
       = (Some (RuntimeError ''Source is not a MediaPad''), interface_device, mock_world)"
proof -
  have s: "\<forall>r. source (the_Link (one_interface_graph ! 2)) = Some r \<longrightarrow> \<not> is_Pad (objects interface_device ! r)"
    using interface_device_link(2,3) by simp
  have k: "\<forall>r. sink (the_Link (one_interface_graph ! 2)) = Some r \<longrightarrow> \<not> is_Pad (objects interface_device ! r)"
    using interface_device_link(4,5) by simp
  show ?thesis
    using not_pad_type_mismatch[OF one_interface_graph_resolved interface_device_link(1),
        of mock_env mock_kernel mock_world]
      s k one_interface_graph_resolved interface_device_link
    by blast
qed

lemma resolved_set_flags:
  assumes "resolved objs" and "l < length objs" and "objs ! l = Link self"
  shows "resolved (objs[l := Link (self\<lparr>flags := f\<rparr>)])"
  unfolding resolved_def list_all_length
proof (intro allI impI)
  let ?objs' = "objs[l := Link (self\<lparr>flags := f\<rparr>)]"
  fix r assume "r < length ?objs'"
  then have r: "r < length objs" by simp
  have ent: "is_Entity (?objs' ! e) = is_Entity (objs ! e)" if "e < length objs" for e
    using that assms(3) by (cases "e = l") simp_all
  note old = resolved_nth[OF assms(1) r]
  show "resolved_object ?objs' (?objs' ! r)"
  proof (cases "r = l")
    case True
    then show ?thesis using old assms(2,3)
      by (auto simp: resolved_object_def split: option.splits)
  next
    case False
    then show ?thesis using old ent
      by (cases "objs ! r") (auto simp: resolved_object_def split: option.splits)
  qed
qed

lemma deref_set_flags:
  assumes "l < length objs" and "objs ! l = Link self"
  shows "deref (objs[l := Link (self\<lparr>flags := f\<rparr>)]) r
         = (if r = l then Some (Link (self\<lparr>flags := f\<rparr>)) else deref objs r)"
  using assms by (simp add: deref_def)

lemma is_Pad_set_flags:
  assumes "l < length objs" and "objs ! l = Link self"
  shows "is_Pad (objs[l := Link (self\<lparr>flags := f\<rparr>)] ! r) = is_Pad (objs ! r)"
  using assms by (cases "r = l") simp_all

lemma pad_at_set_flags:
  assumes "l < length objs" and "objs ! l = Link self"
  shows "(case deref (objs[l := Link (self\<lparr>flags := f\<rparr>)]) r of
            None \<Rightarrow> D | Some ob \<Rightarrow> if is_Pad ob then A else B)
       = (case deref objs r of None \<Rightarrow> D | Some ob \<Rightarrow> if is_Pad ob then A else B)"
  using assms by (cases "r = l") (simp_all add: deref_def)

lemma source_pad_set_flags:
  assumes "l < length objs" and "objs ! l = Link self"
  shows "source_pad (objs[l := Link (self\<lparr>flags := f\<rparr>)]) (lk\<lparr>flags := f'\<rparr>) = source_pad objs lk"
    and "sink_pad (objs[l := Link (self\<lparr>flags := f\<rparr>)]) (lk\<lparr>flags := f'\<rparr>) = sink_pad objs lk"
  by (simp_all add: source_pad_def sink_pad_def pad_at_set_flags[OF assms]
        cong: option.case_cong)

lemma entity_at_set_flags:
  assumes "l < length objs" and "objs ! l = Link self"
  shows "(case deref (objs[l := Link (self\<lparr>flags := f\<rparr>)]) e of
            Some (Entity en) \<Rightarrow> Inr (obj_id en) | _ \<Rightarrow> Inl DanglingRef)
       = (case deref objs e of Some (Entity en) \<Rightarrow> Inr (obj_id en) | _ \<Rightarrow> Inl DanglingRef)"
  using assms by (cases "e = l") (simp_all add: deref_def)

lemma pad_entity_id_of_set_flags:
  assumes "l < length objs" and "objs ! l = Link self"
  shows "pad_entity_id_of (objs[l := Link (self\<lparr>flags := f\<rparr>)]) p = pad_entity_id_of objs p"
proof (cases "p = l")
  case True
  then show ?thesis using assms by (simp add: pad_entity_id_of_def deref_def)
next
  case False
  then have d: "deref (objs[l := Link (self\<lparr>flags := f\<rparr>)]) p = deref objs p"
    by (simp add: deref_def)
  show ?thesis
    unfolding pad_entity_id_of_def d
    by (simp add: entity_at_set_flags[OF assms]
             cong: option.case_cong object.case_cong)
qed

lemma pad_index_of_set_flags:
  assumes "l < length objs" and "objs ! l = Link self"
  shows "pad_index_of (objs[l := Link (self\<lparr>flags := f\<rparr>)]) p = pad_index_of objs p"
  using assms by (cases "p = l") (simp_all add: pad_index_of_def deref_def)

lemma link_desc_set_flags:
  assumes "l < length objs" and "objs ! l = Link self"
  shows "link_desc (objs[l := Link (self\<lparr>flags := f\<rparr>)]) (lk\<lparr>flags := f'\<rparr>) flgs = link_desc objs lk flgs"
  unfolding link_desc_def source_pad_set_flags[OF assms] pad_entity_id_of_set_flags[OF assms]
    pad_index_of_set_flags[OF assms] ..

lemma mock_round_trip:
  "fst (enable_then_disable mock_env mock_kernel mock_device 4 mock_world) = None"
  "flags (the_Link (objects (fst (snd (enable_then_disable mock_env mock_kernel mock_device 4 mock_world))) ! 4)) = 0"
  by (simp_all add: setup_eval_defs)


text \<open>
  Claim C7, as amended. For a link of a resolved graph whose source and sink are both
  pads, in any flag state: when \<^verbatim>\<open>enable\<close> and then \<^verbatim>\<open>disable\<close> both return, two
  setup-link calls have been issued, whose descriptors are the same but for the
  flags, \<^verbatim>\<open>MEDIA_LNK_FL_ENABLED\<close> in the first and 0 in the second; the device is as
  before except that the link's flags are 0; and so it is in its state of before
  the \<^verbatim>\<open>enable\<close> exactly when the link's flags were 0 then.
\<close>

theorem enable_then_disable_flags:
  assumes "resolved (objects md)" and "deref (objects md) l = Some (Link self)"
    and "source self = Some sp" and "is_Pad (objects md ! sp)"
    and "sink self = Some kp" and "is_Pad (objects md ! kp)"
    and "fst (enable_then_disable ev k md l w) = None"
  shows "\<exists>desc. link_desc (objects md) self 0 = Inr desc \<and> desc_flags desc = 0
           \<and> calls (snd (snd (enable_then_disable ev k md l w)))
               = calls w @ [ioctl_SETUP_LINK (fd md) (desc\<lparr>desc_flags := word_of_int (MEDIA_LNK_FL_ENABLED ev)\<rparr>),
                            ioctl_SETUP_LINK (fd md) desc]
           \<and> fst (snd (enable_then_disable ev k md l w))
               = md\<lparr>objects := (objects md)[l := Link (self\<lparr>flags := 0\<rparr>)]\<rparr>
           \<and> (fst (snd (enable_then_disable ev k md l w)) = md \<longleftrightarrow> flags self = 0)"
proof -
  let ?EN = "MEDIA_LNK_FL_ENABLED ev"
  from assms(2) have l: "l < length (objects md)" "objects md ! l = Link self"
    by (auto simp: deref_def split: if_splits)
  from setup_pads[OF assms(1-6), of 0 k w] obtain desc where
    d: "link_desc (objects md) self 0 = Inr desc" "desc_flags desc = 0"
       "\<forall>flgs'. link_desc (objects md) self flgs' = Inr (desc\<lparr>desc_flags := word_of_int flgs'\<rparr>)"
    by auto
  let ?d1 = "desc\<lparr>desc_flags := word_of_int ?EN\<rparr>"
  let ?md1 = "md\<lparr>objects := (objects md)[l := Link (self\<lparr>flags := ?EN\<rparr>)]\<rparr>"
  let ?w1 = "w\<lparr>calls := calls w @ [ioctl_SETUP_LINK (fd md) ?d1]\<rparr>"
  have d1: "link_desc (objects md) self ?EN = Inr ?d1" using d(3) by simp
  have e: "enable ev k md l w =
             (case setup_link_result k (calls w) (fd md) ?d1 of
                None \<Rightarrow> (None, ?md1, ?w1)
              | Some en \<Rightarrow> (Some (OSError en), md, ?w1))"
    by (simp add: enable_def MediaLink_setup_def assms(2) d1 sys_ioctl_setup_link_def split: option.splits)
  have ok1: "setup_link_result k (calls w) (fd md) ?d1 = None"
    using assms(7) by (auto simp: enable_then_disable_def e split: option.splits)
  then have e1: "enable ev k md l w = (None, ?md1, ?w1)" using e by simp
  \<comment> \<open>the device after the first call\<close>
  let ?self1 = "self\<lparr>flags := ?EN\<rparr>"
  have r1: "resolved (objects ?md1)" using resolved_set_flags[OF assms(1) l] by simp
  have lk1: "deref (objects ?md1) l = Some (Link ?self1)" using l by (simp add: deref_def)
  have ne: "sp \<noteq> l" "kp \<noteq> l" using assms(4,6) l(2) by auto
  have p1: "source ?self1 = Some sp" "is_Pad (objects ?md1 ! sp)"
           "sink ?self1 = Some kp" "is_Pad (objects ?md1 ! kp)"
    using assms(3-6) ne by simp_all
  from setup_pads[OF r1 lk1 p1, of 0 k ?w1] obtain desc2 where
    d2: "link_desc (objects ?md1) ?self1 0 = Inr desc2"
        "\<forall>flgs'. link_desc (objects ?md1) ?self1 flgs' = Inr (desc2\<lparr>desc_flags := word_of_int flgs'\<rparr>)"
    and s2: "MediaLink_setup k ?md1 l 0 ?w1 =
               (case setup_link_result k (calls ?w1) (fd ?md1) desc2 of
                  None \<Rightarrow> (None, ?md1\<lparr>objects := (objects ?md1)[l := Link (?self1\<lparr>flags := 0\<rparr>)]\<rparr>,
                            ?w1\<lparr>calls := calls ?w1 @ [ioctl_SETUP_LINK (fd ?md1) desc2]\<rparr>)
                | Some en \<Rightarrow> (Some (OSError en), ?md1,
                              ?w1\<lparr>calls := calls ?w1 @ [ioctl_SETUP_LINK (fd ?md1) desc2]\<rparr>))"
    by blast
  have \<open>desc2 = desc\<close>
    using d2(1) d(1) link_desc_set_flags[OF l, where f="?EN" and lk=self and f'="?EN" and flgs=0] by simp
  note s2' = s2[unfolded \<open>desc2 = desc\<close>]
  have seq: "enable_then_disable ev k md l w = MediaLink_setup k ?md1 l 0 ?w1"
    by (simp add: enable_then_disable_def e1 disable_def)
  have fin: "enable_then_disable ev k md l w =
               (None, md\<lparr>objects := (objects md)[l := Link (self\<lparr>flags := 0\<rparr>)]\<rparr>,
                w\<lparr>calls := calls w @ [ioctl_SETUP_LINK (fd md) ?d1, ioctl_SETUP_LINK (fd md) desc]\<rparr>)"
  proof (cases "setup_link_result k (calls ?w1) (fd ?md1) desc")
    case None
    show ?thesis unfolding seq s2' None by simp
  next
    case (Some en)
    have "fst (enable_then_disable ev k md l w) = Some (OSError en)"
      unfolding seq s2' Some by simp
    with assms(7) show ?thesis by simp
  qed
  have same_dev: "md\<lparr>objects := (objects md)[l := Link (self\<lparr>flags := 0\<rparr>)]\<rparr> = md \<longleftrightarrow> flags self = 0"
  proof
    assume "md\<lparr>objects := (objects md)[l := Link (self\<lparr>flags := 0\<rparr>)]\<rparr> = md"
    then have "objects (md\<lparr>objects := (objects md)[l := Link (self\<lparr>flags := 0\<rparr>)]\<rparr>) ! l = objects md ! l"
      by simp
    then have "self\<lparr>flags := 0\<rparr> = self" using l by simp
    then have "flags (self\<lparr>flags := 0\<rparr>) = flags self" by simp
    then show "flags self = 0" by simp
  next
    assume "flags self = 0"
    then have "self\<lparr>flags := 0\<rparr> = self" by simp
    then show "md\<lparr>objects := (objects md)[l := Link (self\<lparr>flags := 0\<rparr>)]\<rparr> = md"
      using l by (simp add: list_update_same_conv)
  qed
  show ?thesis
  proof (intro exI conjI)
    show "link_desc (objects md) self 0 = Inr desc" by (rule d(1))
    show "desc_flags desc = 0" by (rule d(2))
    show "calls (snd (snd (enable_then_disable ev k md l w)))
               = calls w @ [ioctl_SETUP_LINK (fd md) (desc\<lparr>desc_flags := word_of_int (MEDIA_LNK_FL_ENABLED ev)\<rparr>),
                            ioctl_SETUP_LINK (fd md) desc]"
      by (simp add: fin)
    show "fst (snd (enable_then_disable ev k md l w))
               = md\<lparr>objects := (objects md)[l := Link (self\<lparr>flags := 0\<rparr>)]\<rparr>"
      by (simp add: fin)
    show "(fst (snd (enable_then_disable ev k md l w)) = md) = (flags self = 0)"
      using same_dev by (simp add: fin)
  qed
qed


theorem enable_then_disable_flags_witness:
  "resolved (objects mock_device)
   \<and> deref (objects mock_device) 4 = Some (Link (the_Link (two_entity_graph ! 4)))
   \<and> source (the_Link (two_entity_graph ! 4)) = Some 2 \<and> is_Pad (objects mock_device ! 2)
   \<and> sink (the_Link (two_entity_graph ! 4)) = Some 3 \<and> is_Pad (objects mock_device ! 3)
   \<and> fst (enable_then_disable mock_env mock_kernel mock_device 4 mock_world) = None
   \<and> (\<exists>desc. link_desc (objects mock_device) (the_Link (two_entity_graph ! 4)) 0 = Inr desc
         \<and> desc_flags desc = 0
         \<and> calls (snd (snd (enable_then_disable mock_env mock_kernel mock_device 4 mock_world)))
             = calls mock_world @ [ioctl_SETUP_LINK (fd mock_device) (desc\<lparr>desc_flags := 1\<rparr>),
                                   ioctl_SETUP_LINK (fd mock_device) desc]
         \<and> fst (snd (enable_then_disable mock_env mock_kernel mock_device 4 mock_world))
             = mock_device\<lparr>objects := (objects mock_device)
                                        [4 := Link ((the_Link (two_entity_graph ! 4))\<lparr>flags := 0\<rparr>)]\<rparr>
         \<and> fst (snd (enable_then_disable mock_env mock_kernel mock_device 4 mock_world)) \<noteq> mock_device)"
proof -
  note h = two_entity_graph_resolved mock_device_link(1-5)
  have en: "word_of_int (MEDIA_LNK_FL_ENABLED mock_env) = (1 :: u32)" by (simp add: mock_env_def)
  from enable_then_disable_flags[OF h mock_round_trip(1)] mock_device_link(6)
  have "\<exists>desc. link_desc (objects mock_device) (the_Link (two_entity_graph ! 4)) 0 = Inr desc
         \<and> desc_flags desc = 0
         \<and> calls (snd (snd (enable_then_disable mock_env mock_kernel mock_device 4 mock_world)))
             = calls mock_world @ [ioctl_SETUP_LINK (fd mock_device) (desc\<lparr>desc_flags := 1\<rparr>),
                                   ioctl_SETUP_LINK (fd mock_device) desc]
         \<and> fst (snd (enable_then_disable mock_env mock_kernel mock_device 4 mock_world))
             = mock_device\<lparr>objects := (objects mock_device)
                                        [4 := Link ((the_Link (two_entity_graph ! 4))\<lparr>flags := 0\<rparr>)]\<rparr>
         \<and> fst (snd (enable_then_disable mock_env mock_kernel mock_device 4 mock_world)) \<noteq> mock_device"
    unfolding en by auto
  then show ?thesis using h mock_round_trip(1) by blast
qed


text \<open>
  Claim C7 as stated fails on a link that is enabled to begin with: in the graph of
  the two entities the link from pad 2 to pad 3 has the flags 1; both calls are
  accepted, and the flags are 0 afterwards.
\<close>

theorem enable_then_disable_restores_counterexample:
  "source_pad (objects mock_device) (the_Link (objects mock_device ! 4)) = Inr 2
   \<and> sink_pad (objects mock_device) (the_Link (objects mock_device ! 4)) = Inr 3
   \<and> flags (the_Link (objects mock_device ! 4)) = 1
   \<and> fst (enable_then_disable mock_env mock_kernel mock_device 4 mock_world) = None
   \<and> flags (the_Link (objects (fst (snd (enable_then_disable mock_env mock_kernel mock_device 4 mock_world))) ! 4)) = 0"
  by (simp add: setup_eval_defs)



section \<open>The two-phase read of the topology\<close>


lemma length_copy_out: "length (copy_out buf recs) = length buf"
  by (simp add: copy_out_def)

lemma hotplug_sizing:
  "g_topology_result hotplug_kernel (calls mock_world) 3 zero_topology
     = Inr ((g_topology_of hotplug_topology zero_topology)
               \<lparr>reply_topology := (reply_topology (g_topology_of hotplug_topology zero_topology))
                                     \<lparr>num_links := 3\<rparr>\<rparr>)"
  by (simp add: hotplug_kernel_def mock_kernel_def zero_topology_def)

lemma hotplug_filling:
  "g_topology_result hotplug_kernel (calls mock_world @ [ioctl_G_TOPOLOGY 3 zero_topology]) 3
     ((reply_topology ((g_topology_of hotplug_topology zero_topology)
               \<lparr>reply_topology := (reply_topology (g_topology_of hotplug_topology zero_topology))
                                     \<lparr>num_links := 3\<rparr>\<rparr>))
        \<lparr>ptr_entities := addressof Array_entities, ptr_interfaces := addressof Array_interfaces,
         ptr_pads := addressof Array_pads, ptr_links := addressof Array_links\<rparr>)
   = Inr (g_topology_of hotplug_topology
     ((reply_topology ((g_topology_of hotplug_topology zero_topology)
               \<lparr>reply_topology := (reply_topology (g_topology_of hotplug_topology zero_topology))
                                     \<lparr>num_links := 3\<rparr>\<rparr>))
        \<lparr>ptr_entities := addressof Array_entities, ptr_interfaces := addressof Array_interfaces,
         ptr_pads := addressof Array_pads, ptr_links := addressof Array_links\<rparr>))"
  by (simp add: hotplug_kernel_def mock_kernel_def g_topology_of_def)

lemmas read_eval_defs = read_topology_def sys_ioctl_g_topology_def hotplug_kernel_def mock_kernel_def
  g_topology_of_def hotplug_topology_def two_entity_topology_def zero_topology_def mock_world_def
  copy_out_def zero_entity_def zero_interface_def zero_pad_def zero_link_def
  build_graph_def wrap_objects_def mock_env_def

lemma hotplug_read:
  "\<not> isl (fst (read_topology mock_env hotplug_kernel 3 mock_world))"
  "num_links (topo_topology (fst (projr (fst (read_topology mock_env hotplug_kernel 3 mock_world))))) = 2"
  "length (topo_links (fst (projr (fst (read_topology mock_env hotplug_kernel 3 mock_world))))) = 3"
  "length (snd (projr (fst (read_topology mock_env hotplug_kernel 3 mock_world)))) = 7"
  "calls (snd (read_topology mock_env hotplug_kernel 3 mock_world))
     = [ioctl_G_TOPOLOGY 3 zero_topology,
        ioctl_G_TOPOLOGY 3 \<lparr>topology_version = 1, num_entities = 2, ptr_entities = addressof Array_entities,
                             num_interfaces = 0, ptr_interfaces = addressof Array_interfaces,
                             num_pads = 2, ptr_pads = addressof Array_pads,
                             num_links = 3, ptr_links = addressof Array_links\<rparr>]"
  by (simp_all add: read_eval_defs eval_defs)



text \<open>
  Claim C6, as amended. In the two-phase read, when both topology ioctls succeed, the
  four arrays have the lengths that the sizing call reported and hold the records
  that the filling call copied, followed by zero-initialised records in the slots
  it did not fill; the counts that the filling call wrote back are stored with the
  topology and compared with nothing. The read then ends as the construction and
  resolution of the objects of these arrays end: no mismatch error is among its
  results.
\<close>

theorem read_topology_sizes:
  assumes "g_topology_result k (calls w) d zero_topology = Inr r1"
    and "g_topology_result k (calls w @ [ioctl_G_TOPOLOGY d zero_topology]) d
           ((reply_topology r1)\<lparr>ptr_entities := addressof Array_entities,
                                   ptr_interfaces := addressof Array_interfaces,
                                   ptr_pads := addressof Array_pads,
                                   ptr_links := addressof Array_links\<rparr>) = Inr r2"
  shows "\<exists>t. fst (read_topology ev k d w)
               = (case build_graph ev t of Inl err \<Rightarrow> Inl err | Inr objs \<Rightarrow> Inr (t, objs))
           \<and> topo_topology t = reply_topology r2
           \<and> topo_entities t = copy_out (replicate (unat (num_entities (reply_topology r1))) zero_entity)
                                         (reply_entities r2)
           \<and> topo_interfaces t = copy_out (replicate (unat (num_interfaces (reply_topology r1))) zero_interface)
                                           (reply_interfaces r2)
           \<and> topo_pads t = copy_out (replicate (unat (num_pads (reply_topology r1))) zero_pad)
                                     (reply_pads r2)
           \<and> topo_links t = copy_out (replicate (unat (num_links (reply_topology r1))) zero_link)
                                      (reply_links r2)
           \<and> length (topo_entities t) = unat (num_entities (reply_topology r1))
           \<and> length (topo_interfaces t) = unat (num_interfaces (reply_topology r1))
           \<and> length (topo_pads t) = unat (num_pads (reply_topology r1))
           \<and> length (topo_links t) = unat (num_links (reply_topology r1))"
proof -
  let ?t = "\<lparr>topo_topology = reply_topology r2,
             topo_entities = copy_out (replicate (unat (num_entities (reply_topology r1))) zero_entity)
                                      (reply_entities r2),
             topo_interfaces = copy_out (replicate (unat (num_interfaces (reply_topology r1))) zero_interface)
                                        (reply_interfaces r2),
             topo_pads = copy_out (replicate (unat (num_pads (reply_topology r1))) zero_pad) (reply_pads r2),
             topo_links = copy_out (replicate (unat (num_links (reply_topology r1))) zero_link)
                                   (reply_links r2)\<rparr>"
  have "fst (read_topology ev k d w)
          = (case build_graph ev ?t of Inl err \<Rightarrow> Inl err | Inr objs \<Rightarrow> Inr (?t, objs))"
    by (simp add: read_topology_def sys_ioctl_g_topology_def assms Let_def)
  then show ?thesis
    by (intro exI[of _ ?t]) (simp add: length_copy_out)
qed

theorem read_topology_sizes_witness:
  "\<exists>t. fst (read_topology mock_env hotplug_kernel 3 mock_world)
          = (case build_graph mock_env t of Inl err \<Rightarrow> Inl err | Inr objs \<Rightarrow> Inr (t, objs))
      \<and> num_links (topo_topology t) = 2
      \<and> length (topo_links t) = 3
      \<and> topo_links t = [\<lparr>link_id = 5, link_source_id = 3, link_sink_id = 4, link_flags = 1\<rparr>,
                         \<lparr>link_id = 6, link_source_id = 3, link_sink_id = 4, link_flags = 0\<rparr>,
                         zero_link]"
proof -
  from read_topology_sizes[OF hotplug_sizing hotplug_filling, of mock_env]
  obtain t where t: "fst (read_topology mock_env hotplug_kernel 3 mock_world)
          = (case build_graph mock_env t of Inl err \<Rightarrow> Inl err | Inr objs \<Rightarrow> Inr (t, objs))"
    and tt: "topo_topology t = reply_topology (g_topology_of hotplug_topology
     ((reply_topology ((g_topology_of hotplug_topology zero_topology)
               \<lparr>reply_topology := (reply_topology (g_topology_of hotplug_topology zero_topology))
                                     \<lparr>num_links := 3\<rparr>\<rparr>))
        \<lparr>ptr_entities := addressof Array_entities, ptr_interfaces := addressof Array_interfaces,
         ptr_pads := addressof Array_pads, ptr_links := addressof Array_links\<rparr>))"
    and tl: "topo_links t = copy_out (replicate (unat (num_links (reply_topology
               ((g_topology_of hotplug_topology zero_topology)
               \<lparr>reply_topology := (reply_topology (g_topology_of hotplug_topology zero_topology))
                                     \<lparr>num_links := 3\<rparr>\<rparr>)))) zero_link)
              (reply_links (g_topology_of hotplug_topology
     ((reply_topology ((g_topology_of hotplug_topology zero_topology)
               \<lparr>reply_topology := (reply_topology (g_topology_of hotplug_topology zero_topology))
                                     \<lparr>num_links := 3\<rparr>\<rparr>))
        \<lparr>ptr_entities := addressof Array_entities, ptr_interfaces := addressof Array_interfaces,
         ptr_pads := addressof Array_pads, ptr_links := addressof Array_links\<rparr>)))"
    by blast
  have 1: "num_links (topo_topology t) = 2"
    unfolding tt by (simp add: g_topology_of_def hotplug_topology_def)
  have 2: "topo_links t = [\<lparr>link_id = 5, link_source_id = 3, link_sink_id = 4, link_flags = 1\<rparr>,
                         \<lparr>link_id = 6, link_source_id = 3, link_sink_id = 4, link_flags = 0\<rparr>,
                         zero_link]"
    unfolding tl by (simp add: g_topology_of_def hotplug_topology_def copy_out_def)
  show ?thesis using t 1 2 by (intro exI[of _ t]) simp
qed


text \<open>
  Claim C6 as stated fails on a transport that reports three links to the sizing
  call (the second call is issued with \<open>num_links = 3\<close>) and two links to the
  filling call: the read does not fail, the topology it returns has the count 2 and
  three link records, and seven objects are built from the two entities, two pads
  and three link slots.
\<close>

theorem count_mismatch_counterexample:
  "calls (snd (read_topology mock_env hotplug_kernel 3 mock_world))
     = [ioctl_G_TOPOLOGY 3 zero_topology,
        ioctl_G_TOPOLOGY 3 \<lparr>topology_version = 1, num_entities = 2, ptr_entities = addressof Array_entities,
                             num_interfaces = 0, ptr_interfaces = addressof Array_interfaces,
                             num_pads = 2, ptr_pads = addressof Array_pads,
                             num_links = 3, ptr_links = addressof Array_links\<rparr>]
   \<and> num_links (topo_topology (fst (projr (fst (read_topology mock_env hotplug_kernel 3 mock_world))))) = 2
   \<and> \<not> isl (fst (read_topology mock_env hotplug_kernel 3 mock_world))
   \<and> length (topo_links (fst (projr (fst (read_topology mock_env hotplug_kernel 3 mock_world))))) = 3
   \<and> length (snd (projr (fst (read_topology mock_env hotplug_kernel 3 mock_world)))) = 7"
  using hotplug_read by simp


section \<open>The descriptor of the device handle\<close>

lemmas init_eval_defs = MediaDevice_init_def sys_open_def sys_close_def read_device_info_def
  sys_ioctl_device_info_def decode_field_def decode_kernel_version_def mock_info_def
  not_media_kernel_def handle_collected_def find_media_device_by_value_def getattr_decode_def


text \<open>
  Claim C9 does not hold of \<^verbatim>\<open>MediaDevice.__init__\<close>. On a node whose device-info
  ioctl fails with ENOTTY, the constructor ends with OSError after the descriptor 3
  was opened; no close has been issued and none is registered, so that collecting
  the handle closes nothing: the descriptor opened is never closed.
\<close>

theorem init_error_keeps_descriptor_open:
  "MediaDevice_init mock_env not_media_kernel ''/dev/media0'' ''path'' mock_world
     = (Inl (OSError 25),
        \<lparr>calls = [os_open ''/dev/media0'', ioctl_DEVICE_INFO 3], finalizers = []\<rparr>)
   \<and> handle_collected not_media_kernel
         (snd (MediaDevice_init mock_env not_media_kernel ''/dev/media0'' ''path'' mock_world))
     = \<lparr>calls = [os_open ''/dev/media0'', ioctl_DEVICE_INFO 3], finalizers = []\<rparr>
   \<and> opened_fds not_media_kernel [] [os_open ''/dev/media0'', ioctl_DEVICE_INFO 3] = [3]
   \<and> closed_fds [os_open ''/dev/media0'', ioctl_DEVICE_INFO 3] = []"
  by (simp add: init_eval_defs read_eval_defs)


text \<open>
  The other paths. When the constructor succeeds, the close of the descriptor is
  registered and runs once when the handle is collected. The search of a device by
  a value of its device info closes, in its \<^verbatim>\<open>finally\<close> clause, every descriptor it
  opened, also when the device-info ioctl fails. And for every transport, the
  constructor called with a path issues no close, registers the close of the
  handle's descriptor when it succeeds, and registers nothing when it fails.
\<close>

lemma init_success_closes_once:
  "fst (MediaDevice_init mock_env mock_kernel ''/dev/media0'' ''path'' mock_world) = Inr mock_device"
  "finalizers (snd (MediaDevice_init mock_env mock_kernel ''/dev/media0'' ''path'' mock_world)) = [3]"
  "closed_fds (calls (handle_collected mock_kernel
      (snd (MediaDevice_init mock_env mock_kernel ''/dev/media0'' ''path'' mock_world)))) = [3]"
  by (simp_all add: init_eval_defs read_eval_defs eval_defs mock_device_def two_entity_graph_def)

lemma find_by_value_closes:
  "find_media_device_by_value mock_env mock_kernel ''driver'' ''vimc'' mock_world
     = (Inr ''/dev/media0'',
        \<lparr>calls = [os_open ''/dev/media0'', ioctl_DEVICE_INFO 3, os_close 3], finalizers = []\<rparr>)"
  "find_media_device_by_value mock_env not_media_kernel ''driver'' ''vimc'' mock_world
     = (Inl (OSError 25),
        \<lparr>calls = [os_open ''/dev/media0'', ioctl_DEVICE_INFO 3, os_close 3], finalizers = []\<rparr>)"
  by (simp_all add: init_eval_defs read_eval_defs)


lemma closed_fds_append: "closed_fds (a @ b) = closed_fds a @ closed_fds b"
  by (induction a) auto

lemma sys_open_world:
  "sys_open k path w = (r, w') \<Longrightarrow> finalizers w' = finalizers w \<and> closed_fds (calls w') = closed_fds (calls w)"
  by (auto simp: sys_open_def closed_fds_append)

lemma read_device_info_world:
  "read_device_info ev k d w = (r, w') \<Longrightarrow> finalizers w' = finalizers w \<and> closed_fds (calls w') = closed_fds (calls w)"
  by (auto simp: read_device_info_def sys_ioctl_device_info_def closed_fds_append split: sum.splits)

lemma read_topology_world:
  "read_topology ev k d w = (r, w') \<Longrightarrow> finalizers w' = finalizers w \<and> closed_fds (calls w') = closed_fds (calls w)"
  by (auto simp: read_topology_def sys_ioctl_g_topology_def closed_fds_append Let_def split: sum.splits)

lemma init_path_world:
  assumes "MediaDevice_init ev k nm ''path'' w = (r, w')"
  shows "closed_fds (calls w') = closed_fds (calls w)"
    and "(\<exists>err. r = Inl err) \<Longrightarrow> finalizers w' = finalizers w"
    and "r = Inr md \<Longrightarrow> finalizers w' = finalizers w @ [fd md]"
proof -
  obtain r1 w1 where o: "sys_open k nm w = (r1, w1)" by (cases "sys_open k nm w")
  note ow = sys_open_world[OF o]
  show "closed_fds (calls w') = closed_fds (calls w)"
    and "(\<exists>err. r = Inl err) \<Longrightarrow> finalizers w' = finalizers w"
    and "r = Inr md \<Longrightarrow> finalizers w' = finalizers w @ [fd md]"
  proof (atomize (full), cases r1)
    case (Inl err)
    then show "closed_fds (calls w') = closed_fds (calls w)
      \<and> ((\<exists>err. r = Inl err) \<longrightarrow> finalizers w' = finalizers w)
      \<and> (r = Inr md \<longrightarrow> finalizers w' = finalizers w @ [fd md])"
      using assms o ow by (auto simp: MediaDevice_init_def)
  next
    case (Inr d)
    obtain r2 w2 where i: "read_device_info ev k d w1 = (r2, w2)" by (cases "read_device_info ev k d w1")
    note iw = read_device_info_world[OF i]
    show "closed_fds (calls w') = closed_fds (calls w)
      \<and> ((\<exists>err. r = Inl err) \<longrightarrow> finalizers w' = finalizers w)
      \<and> (r = Inr md \<longrightarrow> finalizers w' = finalizers w @ [fd md])"
    proof (cases r2)
      case (Inl err)
      then show ?thesis using assms o Inr i ow iw by (auto simp: MediaDevice_init_def)
    next
      case info: (Inr info)
      obtain r3 w3 where t: "read_topology ev k d w2 = (r3, w3)" by (cases "read_topology ev k d w2")
      note tw = read_topology_world[OF t]
      show ?thesis
      proof (cases r3)
        case (Inl err)
        then show ?thesis using assms o Inr i info t ow iw tw by (auto simp: MediaDevice_init_def)
      next
        case g: (Inr tg)
        then show ?thesis using assms o Inr i info t ow iw tw
          by (cases tg) (auto simp: MediaDevice_init_def)
      qed
    qed
  qed
qed


end
